theory Spec2Isabelle
  imports Main
begin

section \<open>Python values\<close>

text \<open>
  The generator \<^verbatim>\<open>script.py\<close> builds its documents as nested Python literals: dicts with
  string keys, lists, strings, booleans and two floats. The embedding keeps exactly that
  shape. A dict is an association list in insertion order (the order \<^verbatim>\<open>json.dump\<close>
  writes), with distinct keys.

  A Python \<^verbatim>\<open>str\<close> is modelled by its UTF-8 encoding, one \<^typ>\<open>char\<close> per byte: this is
  the encoding \<^verbatim>\<open>main\<close> opens every file with, so the bytes of the model are the bytes on
  disk. ASCII text reads as itself; a character outside ASCII appears as its bytes
  (\<^verbatim>\<open>[CHR 0xC3, CHR 0xB3]\<close> is the letter o with an acute accent).

  A finite Python \<^verbatim>\<open>float\<close> is modelled by the decimal that \<^verbatim>\<open>repr\<close> prints for it:
  \<open>PyFloat m e\<close> stands for \<open>m * 10 ^ e\<close>, with \<open>m\<close> not a multiple of ten (and \<open>e = 0\<close> when
  \<open>m = 0\<close>). For decimals of at most 15 significant digits this is one-to-one with the
  doubles they denote, which covers the two floats of the source: \<^verbatim>\<open>25.50\<close> is
  \<open>PyFloat 255 (-1)\<close> and \<^verbatim>\<open>50.00\<close> is \<open>PyFloat 5 1\<close>.
\<close>

datatype py =
    PyNone
  | PyBool bool
  | PyInt int
  | PyFloat int int
  | PyInfinity bool
  | PyNaN
  | PyStr string
  | PyList "py list"
  | PyDict "(string \<times> py) list"

text \<open>\<^verbatim>\<open>d.get(k)\<close>: the value under a key, \<open>None\<close> when the key is absent.\<close>

fun py_get :: "py \<Rightarrow> string \<Rightarrow> py option" where
  "py_get (PyDict kvs) k = map_of kvs k"
| "py_get _ k = None"

text \<open>\<^verbatim>\<open>d[k1][k2]...\<close>, \<open>None\<close> as soon as a key is absent.\<close>

fun py_path :: "py \<Rightarrow> string list \<Rightarrow> py option" where
  "py_path v [] = Some v"
| "py_path v (k # ks) = (case py_get v k of None \<Rightarrow> None | Some x \<Rightarrow> py_path x ks)"

fun py_str :: "py \<Rightarrow> string option" where
  "py_str (PyStr s) = Some s"
| "py_str _ = None"

fun py_list :: "py \<Rightarrow> py list" where
  "py_list (PyList xs) = xs"
| "py_list _ = []"

text \<open>\<^verbatim>\<open>d.items()\<close>, in insertion order.\<close>

fun dict_items :: "py \<Rightarrow> (string \<times> py) list" where
  "dict_items (PyDict kvs) = kvs"
| "dict_items _ = []"

text \<open>
  \<^verbatim>\<open>d[k] = v\<close>: an existing key keeps its position and takes the new value, a new key is
  appended.
\<close>

fun dict_set :: "string \<Rightarrow> py \<Rightarrow> (string \<times> py) list \<Rightarrow> (string \<times> py) list" where
  "dict_set k v [] = [(k, v)]"
| "dict_set k v ((k', v') # d) = (if k' = k then (k, v) # d else (k', v') # dict_set k v d)"

fun py_setitem :: "py \<Rightarrow> string \<Rightarrow> py \<Rightarrow> py" where
  "py_setitem (PyDict kvs) k v = PyDict (dict_set k v kvs)"
| "py_setitem d k v = d"

text \<open>\<^verbatim>\<open>sep.join(xs)\<close>.\<close>

fun str_join :: "string \<Rightarrow> string list \<Rightarrow> string" where
  "str_join sep [] = []"
| "str_join sep [x] = x"
| "str_join sep (x # y # ys) = x @ sep @ str_join sep (y # ys)"

section \<open>The standard library's \<^verbatim>\<open>json\<close> encoder\<close>

text \<open>
  The source calls \<^verbatim>\<open>json.dumps(obj, indent=2)\<close> for every request body and
  \<^verbatim>\<open>json.dump(obj, f, indent=2, ensure_ascii=False)\<close> for every document it writes. Both
  run \<^verbatim>\<open>json.encoder\<close>'s \<^verbatim>\<open>_make_iterencode\<close>; the definitions below follow it.
\<close>

definition digit_char :: "nat \<Rightarrow> char" where
  "digit_char d = ''0123456789abcdef'' ! d"

function str_nat :: "nat \<Rightarrow> string" where
  "str_nat n = (if n < 10 then [digit_char n] else str_nat (n div 10) @ [digit_char (n mod 10)])"
  by pat_completeness auto
termination
  by (relation "measure id") auto

declare str_nat.simps [simp del]

text \<open>\<^verbatim>\<open>int.__repr__\<close>.\<close>

definition str_int :: "int \<Rightarrow> string" where
  "str_int i = (if i < 0 then CHR ''-'' # str_nat (nat (- i)) else str_nat (nat i))"

text \<open>
  \<^verbatim>\<open>float.__repr__\<close> (the shortest decimal that reads back as the same double), from the
  digits \<open>ds\<close> and the position \<open>decpt\<close> of the decimal point: exponent notation when
  \<open>decpt > 16\<close> or \<open>decpt < -3\<close>, else positional notation with at least one digit after
  the point.
\<close>

definition float_repr :: "int \<Rightarrow> int \<Rightarrow> string" where
  "float_repr m e =
     (if m = 0 then ''0.0''
      else
        let ds = str_nat (nat \<bar>m\<bar>);
            n = int (length ds);
            decpt = n + e;
            sgn = (if m < 0 then ''-'' else '''')
        in
          if decpt > 16 \<or> decpt < -3 then
            (let x = decpt - 1;
                 xs = str_nat (nat \<bar>x\<bar>)
             in sgn @ [hd ds] @ (if n > 1 then ''.'' @ tl ds else '''') @ ''e''
                @ (if x < 0 then ''-'' else ''+'') @ (if length xs < 2 then ''0'' @ xs else xs))
          else if decpt \<le> 0 then sgn @ ''0.'' @ replicate (nat (- decpt)) CHR ''0'' @ ds
          else if decpt \<ge> n then sgn @ ds @ replicate (nat (decpt - n)) CHR ''0'' @ ''.0''
          else sgn @ take (nat decpt) ds @ ''.'' @ drop (nat decpt) ds)"

definition hex4 :: "nat \<Rightarrow> string" where
  "hex4 n = [digit_char (n div 4096 mod 16), digit_char (n div 256 mod 16),
             digit_char (n div 16 mod 16), digit_char (n mod 16)]"

text \<open>\<^verbatim>\<open>'\\u{0:04x}'.format(n)\<close>\<close>

definition u_escape :: "nat \<Rightarrow> string" where
  "u_escape n = [CHR 0x5C, CHR ''u''] @ hex4 n"

text \<open>
  \<^verbatim>\<open>ESCAPE_DCT\<close>: the short escapes of backslash, double quote, backspace, form feed,
  newline, carriage return and tab, and \<^verbatim>\<open>\u00XX\<close> for the other control characters.
\<close>

definition escape_dct :: "nat \<Rightarrow> string option" where
  "escape_dct n =
     (if n = 0x5C then Some [CHR 0x5C, CHR 0x5C]
      else if n = 0x22 then Some [CHR 0x5C, CHR 0x22]
      else if n = 0x08 then Some [CHR 0x5C, CHR ''b'']
      else if n = 0x0C then Some [CHR 0x5C, CHR ''f'']
      else if n = 0x0A then Some [CHR 0x5C, CHR ''n'']
      else if n = 0x0D then Some [CHR 0x5C, CHR ''r'']
      else if n = 0x09 then Some [CHR 0x5C, CHR ''t'']
      else if n < 0x20 then Some (u_escape n)
      else None)"

text \<open>Reading one character back from its UTF-8 bytes: the length a lead byte announces
  and the code point of a lead byte with its continuation bytes.\<close>

definition utf8_len :: "nat \<Rightarrow> nat" where
  "utf8_len b = (if b < 0xC0 then 1 else if b < 0xE0 then 2 else if b < 0xF0 then 3 else 4)"

definition utf8_value :: "nat \<Rightarrow> nat list \<Rightarrow> nat" where
  "utf8_value b cs =
     foldl (\<lambda>a c. a * 64 + c mod 64)
       (if b < 0xC0 then b else if b < 0xE0 then b mod 32 else if b < 0xF0 then b mod 16
        else b mod 8) cs"

text \<open>The replacement \<^verbatim>\<open>py_encode_basestring_ascii\<close> makes for a character its
  pattern \<^verbatim>\<open>([\\"]|[^\ -~])\<close> matches: the short escape, \<^verbatim>\<open>\uXXXX\<close>, or a surrogate pair
  above the basic plane.\<close>

definition escape_code_point :: "nat \<Rightarrow> string" where
  "escape_code_point n =
     (case escape_dct n of
        Some r \<Rightarrow> r
      | None \<Rightarrow>
          if n < 0x10000 then u_escape n
          else u_escape (0xD800 + (n - 0x10000) div 1024 mod 1024)
             @ u_escape (0xDC00 + (n - 0x10000) mod 1024))"

definition is_control :: "char \<Rightarrow> bool" where
  "is_control c = ((of_char c :: nat) < 0x20)"

definition is_ascii :: "char \<Rightarrow> bool" where
  "is_ascii c = ((of_char c :: nat) < 0x80)"

text \<open>The characters the pattern leaves alone: space to tilde, but for backslash and
  double quote.\<close>

definition plain_ascii :: "char \<Rightarrow> bool" where
  "plain_ascii c =
     (c \<noteq> CHR 0x5C \<and> c \<noteq> CHR 0x22 \<and> \<not> is_control c \<and> is_ascii c \<and> c \<noteq> CHR 0x7F)"

function escape_ascii :: "string \<Rightarrow> string" where
  "escape_ascii [] = []"
| "escape_ascii (c # cs) =
     (if plain_ascii c then c # escape_ascii cs
      else
        escape_code_point
          (utf8_value (of_char c) (map of_char (take (utf8_len (of_char c) - 1) cs)))
        @ escape_ascii (drop (utf8_len (of_char c) - 1) cs))"
  by pat_completeness auto
termination
  by (relation "measure length") auto

text \<open>\<^verbatim>\<open>ensure_ascii=True\<close>, the default of \<^verbatim>\<open>json.dumps\<close>.\<close>

definition py_encode_basestring_ascii :: "string \<Rightarrow> string" where
  "py_encode_basestring_ascii s = [CHR 0x22] @ escape_ascii s @ [CHR 0x22]"

text \<open>\<^verbatim>\<open>ensure_ascii=False\<close>: only \<^verbatim>\<open>ESCAPE_DCT\<close>'s characters are replaced, every other
  byte is written as it is.\<close>

definition py_encode_basestring :: "string \<Rightarrow> string" where
  "py_encode_basestring s =
     [CHR 0x22]
     @ concat (map (\<lambda>c. case escape_dct (of_char c) of Some r \<Rightarrow> r | None \<Rightarrow> [c]) s)
     @ [CHR 0x22]"

definition encode_str :: "bool \<Rightarrow> string \<Rightarrow> string" where
  "encode_str ensure_ascii s =
     (if ensure_ascii then py_encode_basestring_ascii s else py_encode_basestring s)"

text \<open>With an indent, every item starts on a line of its own, indented by its nesting
  level, and items are separated by a comma; without, by a comma and a space.\<close>

definition newline_indent :: "nat option \<Rightarrow> nat \<Rightarrow> string" where
  "newline_indent indent level =
     (case indent of None \<Rightarrow> [] | Some n \<Rightarrow> CHR 0x0A # replicate (n * level) CHR '' '')"

definition item_separator :: "nat option \<Rightarrow> nat \<Rightarrow> string" where
  "item_separator indent level =
     (case indent of None \<Rightarrow> '', '' | Some n \<Rightarrow> '','' @ newline_indent indent level)"

fun iterencode :: "bool \<Rightarrow> nat option \<Rightarrow> nat \<Rightarrow> py \<Rightarrow> string"
  and iterencode_list :: "bool \<Rightarrow> nat option \<Rightarrow> nat \<Rightarrow> py list \<Rightarrow> string list"
  and iterencode_dict :: "bool \<Rightarrow> nat option \<Rightarrow> nat \<Rightarrow> (string \<times> py) list \<Rightarrow> string list"
  where
  "iterencode asc ind lvl PyNone = ''null''"
| "iterencode asc ind lvl (PyBool b) = (if b then ''true'' else ''false'')"
| "iterencode asc ind lvl (PyInt i) = str_int i"
| "iterencode asc ind lvl (PyFloat m e) = float_repr m e"
| "iterencode asc ind lvl (PyInfinity neg) = (if neg then ''-Infinity'' else ''Infinity'')"
| "iterencode asc ind lvl PyNaN = ''NaN''"
| "iterencode asc ind lvl (PyStr s) = encode_str asc s"
| "iterencode asc ind lvl (PyList xs) =
     (if xs = [] then ''[]''
      else ''['' @ newline_indent ind (Suc lvl)
           @ str_join (item_separator ind (Suc lvl)) (iterencode_list asc ind (Suc lvl) xs)
           @ newline_indent ind lvl @ '']'')"
| "iterencode asc ind lvl (PyDict kvs) =
     (if kvs = [] then ''{}''
      else ''{'' @ newline_indent ind (Suc lvl)
           @ str_join (item_separator ind (Suc lvl)) (iterencode_dict asc ind (Suc lvl) kvs)
           @ newline_indent ind lvl @ ''}'')"
| "iterencode_list asc ind lvl [] = []"
| "iterencode_list asc ind lvl (x # xs) =
     iterencode asc ind lvl x # iterencode_list asc ind lvl xs"
| "iterencode_dict asc ind lvl [] = []"
| "iterencode_dict asc ind lvl ((k, v) # kvs) =
     (encode_str asc k @ '': '' @ iterencode asc ind lvl v) # iterencode_dict asc ind lvl kvs"

text \<open>\<^verbatim>\<open>json.dumps(obj, indent=indent)\<close>\<close>

definition json_dumps :: "py \<Rightarrow> nat option \<Rightarrow> string" where
  "json_dumps obj indent = iterencode True indent 0 obj"

text \<open>The text \<^verbatim>\<open>json.dump(obj, f, indent=indent, ensure_ascii=False)\<close> writes to
  \<^verbatim>\<open>f\<close>.\<close>

definition json_dump_text :: "py \<Rightarrow> nat option \<Rightarrow> string" where
  "json_dump_text obj indent = iterencode False indent 0 obj"

section \<open>The standard library's \<^verbatim>\<open>json\<close> decoder\<close>

text \<open>
  No function of the source parses JSON; the decoder is here because two properties of
  the request bodies are stated with it (a body parses, and parses back to the object it
  was made from). It follows \<^verbatim>\<open>json.decoder\<close> and \<^verbatim>\<open>json.scanner\<close>: \<^verbatim>\<open>scan_once\<close>
  dispatches on the first character, \<^verbatim>\<open>JSONObject\<close> and \<^verbatim>\<open>JSONArray\<close> read the
  containers, \<^verbatim>\<open>scanstring\<close> a string after its opening quote, and a number is what
  \<^verbatim>\<open>NUMBER_RE\<close> matches. Every function returns the value with the rest of the input,
  or \<open>None\<close> where Python raises \<^verbatim>\<open>JSONDecodeError\<close>.

  The recursion is on a fuel argument; \<open>json_loads\<close> starts it with more fuel than the
  text has characters, and every call that takes fuel also consumes a character.
\<close>

definition is_ws :: "char \<Rightarrow> bool" where
  "is_ws c = (c = CHR '' '' \<or> c = CHR 0x09 \<or> c = CHR 0x0A \<or> c = CHR 0x0D)"

definition skip_ws :: "string \<Rightarrow> string" where
  "skip_ws s = dropWhile is_ws s"

definition is_digit :: "char \<Rightarrow> bool" where
  "is_digit c = (c \<in> set ''0123456789'')"

definition starts_with :: "string \<Rightarrow> string \<Rightarrow> bool" where
  "starts_with s p = (take (length p) s = p)"

definition hex_val :: "char \<Rightarrow> nat option" where
  "hex_val c = map_of (zip ''0123456789abcdefABCDEF'' ([0..<16] @ [10..<16])) c"

definition decode_uXXXX :: "string \<Rightarrow> nat option" where
  "decode_uXXXX s =
     (case map hex_val (take 4 s) of
        [Some a, Some b, Some c, Some d] \<Rightarrow> Some (((a * 16 + b) * 16 + c) * 16 + d)
      | _ \<Rightarrow> None)"

text \<open>The UTF-8 bytes of a code point (a \<^verbatim>\<open>str\<close> of the model holds bytes).\<close>

definition utf8_encode :: "nat \<Rightarrow> string" where
  "utf8_encode n =
     (if n < 0x80 then [char_of n]
      else if n < 0x800 then [char_of (0xC0 + n div 64), char_of (0x80 + n mod 64)]
      else if n < 0x10000 then
        [char_of (0xE0 + n div 4096), char_of (0x80 + n div 64 mod 64),
         char_of (0x80 + n mod 64)]
      else
        [char_of (0xF0 + n div 262144), char_of (0x80 + n div 4096 mod 64),
         char_of (0x80 + n div 64 mod 64), char_of (0x80 + n mod 64)])"

text \<open>\<^verbatim>\<open>BACKSLASH\<close>: the character a one-letter escape stands for.\<close>

definition backslash :: "char \<Rightarrow> char option" where
  "backslash e =
     map_of [(CHR 0x22, CHR 0x22), (CHR 0x5C, CHR 0x5C), (CHR ''/'', CHR ''/''),
             (CHR ''b'', CHR 0x08), (CHR ''f'', CHR 0x0C), (CHR ''n'', CHR 0x0A),
             (CHR ''r'', CHR 0x0D), (CHR ''t'', CHR 0x09)] e"

text \<open>
  \<^verbatim>\<open>scanstring\<close> in strict mode, from the character after the opening quote: up to the
  closing quote, a control character is an error, a backslash starts an escape, and a
  \<^verbatim>\<open>\uXXXX\<close> high surrogate followed by a \<^verbatim>\<open>\uXXXX\<close> low surrogate is one character.
\<close>

fun scanstring :: "nat \<Rightarrow> string \<Rightarrow> (string \<times> string) option" where
  "scanstring 0 s = None"
| "scanstring (Suc n) [] = None"
| "scanstring (Suc n) (c # cs) =
     (if c = CHR 0x22 then Some ([], cs)
      else if c = CHR 0x5C then
        (case cs of
           [] \<Rightarrow> None
         | e # r \<Rightarrow>
             if e = CHR ''u'' then
               (case decode_uXXXX r of
                  None \<Rightarrow> None
                | Some uni \<Rightarrow>
                    (let r1 = drop 4 r;
                         uni2 = (if 0xD800 \<le> uni \<and> uni \<le> 0xDBFF
                                    \<and> take 2 r1 = [CHR 0x5C, CHR ''u'']
                                 then decode_uXXXX (drop 2 r1) else None)
                     in case uni2 of
                          Some u2 \<Rightarrow>
                            if 0xDC00 \<le> u2 \<and> u2 \<le> 0xDFFF then
                              map_option
                                (\<lambda>(t, rest).
                                  (utf8_encode
                                     (0x10000 + (uni - 0xD800) * 1024 + (u2 - 0xDC00)) @ t,
                                   rest))
                                (scanstring n (drop 6 r1))
                            else
                              map_option (\<lambda>(t, rest). (utf8_encode uni @ t, rest))
                                (scanstring n r1)
                        | None \<Rightarrow>
                            map_option (\<lambda>(t, rest). (utf8_encode uni @ t, rest))
                              (scanstring n r1)))
             else
               (case backslash e of
                  None \<Rightarrow> None
                | Some ch \<Rightarrow> map_option (\<lambda>(t, rest). (ch # t, rest)) (scanstring n r)))
      else if is_control c then None
      else map_option (\<lambda>(t, rest). (c # t, rest)) (scanstring n cs))"

definition nat_of_digits :: "string \<Rightarrow> nat" where
  "nat_of_digits ds = foldl (\<lambda>a c. 10 * a + (of_char c - 48)) 0 ds"

text \<open>
  \<^verbatim>\<open>NUMBER_RE = (-?(?:0|[1-9][0-9]*))(\.[0-9]+)?([eE][-+]?[0-9]+)?\<close> at the start of
  \<open>s\<close>: an \<^verbatim>\<open>int\<close> when neither fraction nor exponent matched, else the \<^verbatim>\<open>float\<close> of the
  matched text, as the decimal in lowest terms.
\<close>

definition match_number :: "string \<Rightarrow> (py \<times> string) option" where
  "match_number s =
     (let neg = (take 1 s = ''-'');
          s1 = (if neg then drop 1 s else s);
          ip = (if take 1 s1 = ''0'' then ''0'' else takeWhile is_digit s1);
          s2 = drop (length ip) s1;
          fp = (if take 1 s2 = ''.'' then takeWhile is_digit (drop 1 s2) else []);
          s3 = (if fp = [] then s2 else drop (Suc (length fp)) s2);
          has_e = (take 1 s3 = ''e'' \<or> take 1 s3 = ''E'');
          s4 = drop 1 s3;
          esign = (if take 1 s4 = ''-'' \<or> take 1 s4 = ''+'' then take 1 s4 else []);
          ep = (if has_e then takeWhile is_digit (drop (length esign) s4) else []);
          s5 = (if ep = [] then s3 else drop (length esign + length ep) s4)
      in
        if ip = [] then None
        else if fp = [] \<and> ep = [] then
          Some (PyInt (if neg then - int (nat_of_digits ip) else int (nat_of_digits ip)), s5)
        else
          (let ds = ip @ fp;
               z = length (takeWhile (\<lambda>c. c = CHR ''0'') (rev ds));
               x = (if esign = ''-'' then - int (nat_of_digits ep) else int (nat_of_digits ep))
           in if nat_of_digits ds = 0 then Some (PyFloat 0 0, s5)
              else
                Some (PyFloat
                        ((if neg then -1 else 1) * int (nat_of_digits (take (length ds - z) ds)))
                        (x - int (length fp) + int z), s5)))"

fun scan_once :: "nat \<Rightarrow> string \<Rightarrow> (py \<times> string) option"
  and JSONArray :: "nat \<Rightarrow> py list \<Rightarrow> string \<Rightarrow> (py \<times> string) option"
  and JSONObject :: "nat \<Rightarrow> (string \<times> py) list \<Rightarrow> string \<Rightarrow> (py \<times> string) option"
  where
  "scan_once 0 s = None"
| "scan_once (Suc n) [] = None"
| "scan_once (Suc n) (c # cs) =
     (if c = CHR 0x22 then
        map_option (\<lambda>(t, rest). (PyStr t, rest)) (scanstring (Suc (length cs)) cs)
      else if c = CHR ''{'' then
        (if starts_with (skip_ws cs) ''}'' then Some (PyDict [], drop 1 (skip_ws cs))
         else JSONObject n [] (skip_ws cs))
      else if c = CHR ''['' then
        (if starts_with (skip_ws cs) '']'' then Some (PyList [], drop 1 (skip_ws cs))
         else JSONArray n [] (skip_ws cs))
      else if starts_with (c # cs) ''null'' then Some (PyNone, drop 3 cs)
      else if starts_with (c # cs) ''true'' then Some (PyBool True, drop 3 cs)
      else if starts_with (c # cs) ''false'' then Some (PyBool False, drop 4 cs)
      else case match_number (c # cs) of
        Some r \<Rightarrow> Some r
      | None \<Rightarrow>
          if starts_with (c # cs) ''NaN'' then Some (PyNaN, drop 2 cs)
          else if starts_with (c # cs) ''Infinity'' then Some (PyInfinity False, drop 7 cs)
          else if starts_with (c # cs) ''-Infinity'' then Some (PyInfinity True, drop 8 cs)
          else None)"
| "JSONArray 0 acc s = None"
| "JSONArray (Suc n) acc s =
     (case scan_once n s of
        None \<Rightarrow> None
      | Some (v, r) \<Rightarrow>
          (let r1 = skip_ws r in
           if starts_with r1 '']'' then Some (PyList (acc @ [v]), drop 1 r1)
           else if starts_with r1 '','' then JSONArray n (acc @ [v]) (skip_ws (drop 1 r1))
           else None))"
| "JSONObject 0 acc s = None"
| "JSONObject (Suc n) acc s =
     (if \<not> starts_with s [CHR 0x22] then None
      else case scanstring (length s) (drop 1 s) of
        None \<Rightarrow> None
      | Some (k, r) \<Rightarrow>
          (let r1 = skip_ws r in
           if \<not> starts_with r1 '':'' then None
           else case scan_once n (skip_ws (drop 1 r1)) of
             None \<Rightarrow> None
           | Some (v, r2) \<Rightarrow>
               (let r3 = skip_ws r2 in
                if starts_with r3 ''}'' then Some (PyDict (dict_set k v acc), drop 1 r3)
                else if starts_with r3 '','' then
                  JSONObject n (dict_set k v acc) (skip_ws (drop 1 r3))
                else None)))"

text \<open>\<^verbatim>\<open>json.loads(s)\<close>: one value, with white space allowed around it.\<close>

definition json_loads :: "string \<Rightarrow> py option" where
  "json_loads s =
     (case scan_once (Suc (length s)) (skip_ws s) of
        None \<Rightarrow> None
      | Some (v, r) \<Rightarrow> if skip_ws r = [] then Some v else None)"

section \<open>What a run reads from outside\<close>

text \<open>
  The program takes no input, but four things it does are not functions of its text:
  \<^verbatim>\<open>uuid.uuid4()\<close> draws from the system's entropy, \<^verbatim>\<open>datetime.now()\<close> reads the clock,
  \<^verbatim>\<open>open(..., 'w')\<close> and the writes that follow can fail, and so can \<^verbatim>\<open>print\<close> and the
  flush of the standard output when the interpreter exits. A \<open>world\<close> holds what a run
  will get from each, with the files on disk and the lines printed so far.
\<close>

record datetime =
  year :: nat
  month :: nat
  day :: nat
  hour :: nat
  minute :: nat
  second :: nat

text \<open>
  How writing one file goes wrong: \<^verbatim>\<open>open\<close> raises and nothing is created, or the file
  is created and a write (or the flush when the \<^verbatim>\<open>with\<close> block closes it) raises after
  some of the text reached the disk.
\<close>

datatype fault = OpenFails | WriteFails nat

text \<open>
  The exceptions of a run: \<^verbatim>\<open>OSError\<close> with its \<^verbatim>\<open>filename\<close> attribute, which \<^verbatim>\<open>open\<close>
  sets and a failed write does not, and \<^verbatim>\<open>UnicodeEncodeError\<close>, which \<^verbatim>\<open>print\<close> raises
  for a line the encoding of the standard output cannot represent.
\<close>

datatype exn = OSError "string option" | UnicodeEncodeError

text \<open>
  \<open>stdout_fault w n line\<close> is the exception \<^verbatim>\<open>print(line)\<close> raises when \<open>n\<close> lines have
  been printed before it, \<open>None\<close> when the line is accepted; \<open>flush_fails\<close> tells whether
  the flush of the standard output at exit fails. \<open>stdout\<close> holds the lines \<^verbatim>\<open>print\<close>
  accepted.
\<close>

record world =
  uuid_source :: "nat \<Rightarrow> string"
  uuid_drawn :: nat
  clock :: datetime
  fs_fault :: "string \<Rightarrow> fault option"
  files :: "string \<rightharpoonup> string"
  stdout_fault :: "nat \<Rightarrow> string \<Rightarrow> exn option"
  flush_fails :: bool
  stdout :: "string list"

text \<open>\<^verbatim>\<open>print(line)\<close>: the line is added to the output, or the exception is raised and
  nothing is added.\<close>

definition py_print :: "string \<Rightarrow> world \<Rightarrow> (exn + unit) \<times> world" where
  "py_print line w =
     (case stdout_fault w (length (stdout w)) line of
        None \<Rightarrow> (Inr (), w\<lparr>stdout := stdout w @ [line]\<rparr>)
      | Some e \<Rightarrow> (Inl e, w))"

text \<open>\<^verbatim>\<open>str(uuid.uuid4())\<close>: the next value of the source, which is then used up.\<close>

definition generate_uuid :: "world \<Rightarrow> string \<times> world" where
  "generate_uuid w = (uuid_source w (uuid_drawn w), w\<lparr>uuid_drawn := Suc (uuid_drawn w)\<rparr>)"

definition zero_pad :: "nat \<Rightarrow> string \<Rightarrow> string" where
  "zero_pad n s = replicate (n - length s) CHR ''0'' @ s"

text \<open>
  \<^verbatim>\<open>d.strftime("%Y%m%d_%H%M%S")\<close>, as the C library formats it: the year as it is (a year
  below 1000 is not padded), the other fields on two digits.
\<close>

definition strftime :: "datetime \<Rightarrow> string" where
  "strftime d =
     str_nat (year d) @ zero_pad 2 (str_nat (month d)) @ zero_pad 2 (str_nat (day d))
     @ ''_''
     @ zero_pad 2 (str_nat (hour d)) @ zero_pad 2 (str_nat (minute d))
     @ zero_pad 2 (str_nat (second d))"

text \<open>
  \<^verbatim>\<open>with open(path, 'w', encoding='utf-8') as f:\<close> followed by the writes of \<open>data\<close>. On
  success the file holds \<open>data\<close>, whatever it held before. An exception leaves the block
  and is returned (\<open>Inl\<close>); the file is closed on the way out.
\<close>

definition write_file :: "string \<Rightarrow> string \<Rightarrow> world \<Rightarrow> (exn + unit) \<times> world" where
  "write_file path data w =
     (case fs_fault w path of
        None \<Rightarrow> (Inr (), w\<lparr>files := (files w)(path \<mapsto> data)\<rparr>)
      | Some OpenFails \<Rightarrow> (Inl (OSError (Some path)), w)
      | Some (WriteFails n) \<Rightarrow> (Inl (OSError None), w\<lparr>files := (files w)(path \<mapsto> take n data)\<rparr>))"

section \<open>The four folders\<close>

text \<open>
  Each \<^verbatim>\<open>create_*_folder\<close> returns one dict literal: the folder's name and the list of its
  request descriptors. Parts of the literal are given a name here, so that a statement can
  speak of one of them: a descriptor is \<open>request_\<close> and its \<^verbatim>\<open>name\<close> field, the object
  a \<^verbatim>\<open>json.dumps\<close> call is given is \<open>example_body_\<close> and the descriptor's name, and the
  statement list of a script is \<open>script_\<close> and the descriptor's name. A folder is the
  list of its descriptors in the order of the source.
\<close>

definition example_body_register_user :: py where
  "example_body_register_user =
     PyDict [(''email'', PyStr ''user@example.com''), (''pass'', PyStr ''password123'')]"

definition script_register_user :: py where
  "script_register_user =
     PyList
      [PyStr ''if (pm.response.code === 200) {'',
       PyStr ''    const response = pm.response.json();'',
       PyStr ''    pm.test('User registered successfully', function() {'',
       PyStr ''        pm.expect(response).to.have.property('id');'',
       PyStr ''        pm.expect(response).to.have.property('email');'',
       PyStr ''    });'',
       PyStr ''}'']"

definition request_register_user :: py where
  "request_register_user =
     PyDict
      [(''name'', PyStr ''Register User''),
       (''request'', PyDict
        [(''method'', PyStr ''POST''),
         (''header'', PyList
          [PyDict [(''key'', PyStr ''Content-Type''), (''value'', PyStr ''application/json'')]]),
         (''body'', PyDict
          [(''mode'', PyStr ''raw''),
           (''raw'', PyStr (json_dumps example_body_register_user (Some 2)))]),
         (''url'', PyDict
          [(''raw'', PyStr ''{{base_url}}/api/users/register''),
           (''host'', PyList [PyStr ''{{base_url}}'']),
           (''path'', PyList [PyStr ''api'', PyStr ''users'', PyStr ''register''])]),
         (''description'', PyStr ''Registra un nuevo usuario en el sistema'')]),
       (''response'', PyList []),
       (''event'', PyList
        [PyDict
          [(''listen'', PyStr ''test''),
           (''script'', PyDict [(''exec'', script_register_user)])]])]"

definition example_body_login_user :: py where
  "example_body_login_user =
     PyDict [(''email'', PyStr ''user@example.com''), (''pass'', PyStr ''password123'')]"

definition script_login_user :: py where
  "script_login_user =
     PyList
      [PyStr ''if (pm.response.code === 200) {'',
       PyStr ''    const response = pm.response.json();'',
       PyStr ''    pm.test('Login successful', function() {'',
       PyStr ''        pm.expect(response).to.have.property('token');'',
       PyStr ''    });'',
       PyStr ''    // Guardar token para otras requests'',
       PyStr ''    pm.collectionVariables.set('auth_token', response.token);'',
       PyStr ''}'']"

definition request_login_user :: py where
  "request_login_user =
     PyDict
      [(''name'', PyStr ''Login User''),
       (''request'', PyDict
        [(''method'', PyStr ''POST''),
         (''header'', PyList
          [PyDict [(''key'', PyStr ''Content-Type''), (''value'', PyStr ''application/json'')]]),
         (''body'', PyDict
          [(''mode'', PyStr ''raw''),
           (''raw'', PyStr (json_dumps example_body_login_user (Some 2)))]),
         (''url'', PyDict
          [(''raw'', PyStr ''{{base_url}}/api/users/login''),
           (''host'', PyList [PyStr ''{{base_url}}'']),
           (''path'', PyList [PyStr ''api'', PyStr ''users'', PyStr ''login''])]),
         (''description'', PyStr ''Autentica un usuario y obtiene el token JWT'')]),
       (''response'', PyList []),
       (''event'', PyList
        [PyDict
          [(''listen'', PyStr ''test''),
           (''script'', PyDict [(''exec'', script_login_user)])]])]"

definition create_auth_folder :: py where
  "create_auth_folder =
     PyDict
      [(''name'', PyStr ([CHR 0xF0, CHR 0x9F, CHR 0x94, CHR 0x90] @ '' Authentication'')),
       (''item'', PyList [request_register_user, request_login_user])]"

definition request_get_all_components :: py where
  "request_get_all_components =
     PyDict
      [(''name'', PyStr ''Get All Components''),
       (''request'', PyDict
        [(''method'', PyStr ''GET''),
         (''header'', PyList []),
         (''url'', PyDict
          [(''raw'', PyStr ''{{base_url}}/api/components''),
           (''host'', PyList [PyStr ''{{base_url}}'']),
           (''path'', PyList [PyStr ''api'', PyStr ''components''])]),
         (''description'', PyStr ''Obtiene la lista de todos los componentes disponibles'')]),
       (''response'', PyList [])]"

definition request_get_components_by_type :: py where
  "request_get_components_by_type =
     PyDict
      [(''name'', PyStr ''Get Components by Type''),
       (''request'', PyDict
        [(''method'', PyStr ''GET''),
         (''header'', PyList []),
         (''url'', PyDict
          [(''raw'', PyStr ''{{base_url}}/api/components?type=button''),
           (''host'', PyList [PyStr ''{{base_url}}'']),
           (''path'', PyList [PyStr ''api'', PyStr ''components'']),
           (''query'', PyList
            [PyDict
              [(''key'', PyStr ''type''),
               (''value'', PyStr ''button''),
               (''description'', PyStr
                  (''Filtrar por tipo: button, card, modal, navigation, form, layout, animation, ''
                   @ ''other''))]])]),
         (''description'', PyStr (''Filtra componentes por tipo espec'' @ [CHR 0xC3, CHR 0xAD] @ ''fico''))]),
       (''response'', PyList [])]"

definition request_get_components_by_type_path :: py where
  "request_get_components_by_type_path =
     PyDict
      [(''name'', PyStr ''Get Components by Type (Path)''),
       (''request'', PyDict
        [(''method'', PyStr ''GET''),
         (''header'', PyList []),
         (''url'', PyDict
          [(''raw'', PyStr ''{{base_url}}/api/components/type/button''),
           (''host'', PyList [PyStr ''{{base_url}}'']),
           (''path'', PyList [PyStr ''api'', PyStr ''components'', PyStr ''type'', PyStr ''button''])]),
         (''description'', PyStr
            (''Obtiene componentes de un tipo espec'' @ [CHR 0xC3, CHR 0xAD]
             @ ''fico usando par'' @ [CHR 0xC3, CHR 0xA1] @ ''metro de ruta''))]),
       (''response'', PyList [])]"

definition example_body_create_component :: py where
  "example_body_create_component =
     PyDict
      [(''id'', PyStr ''custom-button-1''),
       (''name'', PyStr ''Animated Button''),
       (''type'', PyStr ''button''),
       (''jsxCode'', PyStr
          (''const AnimatedButton = ({ children, onClick }) => {\<newline>''
           @ ''  return (\<newline>    <button\<newline>''
           @ ''      className=\"animated-btn\"\<newline>''
           @ ''      onClick={onClick}\<newline>    >\<newline>''
           @ ''      {children}\<newline>    </button>\<newline>''
           @ ''  );\<newline>};\<newline>\<newline>export default AnimatedButton;'')),
       (''animationCode'', PyStr
          (''.animated-btn {\<newline>  background: linear-gradient(45deg, #667eea, #764b''
           @ ''a2);\<newline>  border: none;\<newline>  padding: 12px 24px;\<newline>''
           @ ''  border-radius: 8px;\<newline>  color: white;\<newline>''
           @ ''  cursor: pointer;\<newline>  transition: all 0.3s ease;\<newline>''
           @ ''}\<newline>\<newline>.animated-btn:hover {\<newline>''
           @ ''  transform: translateY(-2px);\<newline>  box-shadow: 0 4px 20px rgba(0,0,0,''
           @ ''0.3);\<newline>}''))]"

definition request_create_component :: py where
  "request_create_component =
     PyDict
      [(''name'', PyStr ''Create Component''),
       (''request'', PyDict
        [(''auth'', PyDict [(''type'', PyStr ''noauth'')]),
         (''method'', PyStr ''POST''),
         (''header'', PyList
          [PyDict [(''key'', PyStr ''Content-Type''), (''value'', PyStr ''application/json'')],
           PyDict [(''key'', PyStr ''token''), (''value'', PyStr ''{{auth_token}}'')]]),
         (''body'', PyDict
          [(''mode'', PyStr ''raw''),
           (''raw'', PyStr (json_dumps example_body_create_component (Some 2)))]),
         (''url'', PyDict
          [(''raw'', PyStr ''{{base_url}}/api/components''),
           (''host'', PyList [PyStr ''{{base_url}}'']),
           (''path'', PyList [PyStr ''api'', PyStr ''components''])]),
         (''description'', PyStr (''Crea un nuevo componente (requiere autenticaci'' @ [CHR 0xC3, CHR 0xB3] @ ''n)''))]),
       (''response'', PyList [])]"

definition request_get_specific_component :: py where
  "request_get_specific_component =
     PyDict
      [(''name'', PyStr ''Get Specific Component''),
       (''request'', PyDict
        [(''auth'', PyDict [(''type'', PyStr ''noauth'')]),
         (''method'', PyStr ''GET''),
         (''header'', PyList [PyDict [(''key'', PyStr ''token''), (''value'', PyStr ''{{auth_token}}'')]]),
         (''url'', PyDict
          [(''raw'', PyStr ''{{base_url}}/api/components/custom-button-1''),
           (''host'', PyList [PyStr ''{{base_url}}'']),
           (''path'', PyList [PyStr ''api'', PyStr ''components'', PyStr ''custom-button-1''])]),
         (''description'', PyStr
            (''Obtiene detalles completos de un componente espec'' @ [CHR 0xC3, CHR 0xAD]
             @ ''fico (requiere autenticaci'' @ [CHR 0xC3, CHR 0xB3] @ ''n y posible pago)''))]),
       (''response'', PyList [])]"

definition request_get_user_access_info :: py where
  "request_get_user_access_info =
     PyDict
      [(''name'', PyStr ''Get User Access Info''),
       (''request'', PyDict
        [(''auth'', PyDict [(''type'', PyStr ''noauth'')]),
         (''method'', PyStr ''GET''),
         (''header'', PyList [PyDict [(''key'', PyStr ''token''), (''value'', PyStr ''{{auth_token}}'')]]),
         (''url'', PyDict
          [(''raw'', PyStr ''{{base_url}}/api/components/user/access-info''),
           (''host'', PyList [PyStr ''{{base_url}}'']),
           (''path'', PyList [PyStr ''api'', PyStr ''components'', PyStr ''user'', PyStr ''access-info''])]),
         (''description'', PyStr
            (''Obtiene informaci'' @ [CHR 0xC3, CHR 0xB3]
             @ ''n sobre el acceso del usuario a componentes''))]),
       (''response'', PyList [])]"

definition create_components_folder :: py where
  "create_components_folder =
     PyDict
      [(''name'', PyStr ([CHR 0xF0, CHR 0x9F, CHR 0xA7, CHR 0xA9] @ '' Components'')),
       (''item'', PyList [request_get_all_components, request_get_components_by_type, request_get_components_by_type_path, request_create_component, request_get_specific_component, request_get_user_access_info])]"

definition request_get_pricing_info :: py where
  "request_get_pricing_info =
     PyDict
      [(''name'', PyStr ''Get Pricing Info''),
       (''request'', PyDict
        [(''method'', PyStr ''GET''),
         (''header'', PyList []),
         (''url'', PyDict
          [(''raw'', PyStr ''{{base_url}}/api/payment/pricing-info''),
           (''host'', PyList [PyStr ''{{base_url}}'']),
           (''path'', PyList [PyStr ''api'', PyStr ''payment'', PyStr ''pricing-info''])]),
         (''description'', PyStr (''Obtiene informaci'' @ [CHR 0xC3, CHR 0xB3] @ ''n de precios y beneficios premium''))]),
       (''response'', PyList [])]"

definition example_body_create_component_donation_order :: py where
  "example_body_create_component_donation_order =
     PyDict
      [(''amount'', PyFloat 255 (-1)),
       (''componentId'', PyStr ''custom-button-1''),
       (''isPremiumUpgrade'', PyBool False)]"

definition request_create_component_donation_order :: py where
  "request_create_component_donation_order =
     PyDict
      [(''name'', PyStr ''Create Component Donation Order''),
       (''request'', PyDict
        [(''auth'', PyDict [(''type'', PyStr ''noauth'')]),
         (''method'', PyStr ''POST''),
         (''header'', PyList
          [PyDict [(''key'', PyStr ''Content-Type''), (''value'', PyStr ''application/json'')],
           PyDict [(''key'', PyStr ''token''), (''value'', PyStr ''{{auth_token}}'')]]),
         (''body'', PyDict
          [(''mode'', PyStr ''raw''),
           (''raw'', PyStr (json_dumps example_body_create_component_donation_order (Some 2)))]),
         (''url'', PyDict
          [(''raw'', PyStr ''{{base_url}}/api/payment/create-order''),
           (''host'', PyList [PyStr ''{{base_url}}'']),
           (''path'', PyList [PyStr ''api'', PyStr ''payment'', PyStr ''create-order''])]),
         (''description'', PyStr
            (''Crea una orden de PayPal para donar por un componente espec''
             @ [CHR 0xC3, CHR 0xAD] @ ''fico''))]),
       (''response'', PyList [])]"

definition example_body_create_premium_upgrade_order :: py where
  "example_body_create_premium_upgrade_order =
     PyDict [(''amount'', PyFloat 5 (1)), (''isPremiumUpgrade'', PyBool True)]"

definition request_create_premium_upgrade_order :: py where
  "request_create_premium_upgrade_order =
     PyDict
      [(''name'', PyStr ''Create Premium Upgrade Order''),
       (''request'', PyDict
        [(''auth'', PyDict [(''type'', PyStr ''noauth'')]),
         (''method'', PyStr ''POST''),
         (''header'', PyList
          [PyDict [(''key'', PyStr ''Content-Type''), (''value'', PyStr ''application/json'')],
           PyDict [(''key'', PyStr ''token''), (''value'', PyStr ''{{auth_token}}'')]]),
         (''body'', PyDict
          [(''mode'', PyStr ''raw''),
           (''raw'', PyStr (json_dumps example_body_create_premium_upgrade_order (Some 2)))]),
         (''url'', PyDict
          [(''raw'', PyStr ''{{base_url}}/api/payment/create-order''),
           (''host'', PyList [PyStr ''{{base_url}}'']),
           (''path'', PyList [PyStr ''api'', PyStr ''payment'', PyStr ''create-order''])]),
         (''description'', PyStr ''Crea una orden de PayPal para upgrade a premium'')]),
       (''response'', PyList [])]"

definition request_capture_order_webhook :: py where
  "request_capture_order_webhook =
     PyDict
      [(''name'', PyStr ''Capture Order (Webhook)''),
       (''request'', PyDict
        [(''method'', PyStr ''GET''),
         (''header'', PyList []),
         (''url'', PyDict
          [(''raw'', PyStr
              (''{{base_url}}/api/payment/capture-order?token=PAYPAL_TOKEN&componentId=custom''
               @ ''-button-1&userId=USER_ID&amount=25.50&isPremiumUpgrade=false'')),
           (''host'', PyList [PyStr ''{{base_url}}'']),
           (''path'', PyList [PyStr ''api'', PyStr ''payment'', PyStr ''capture-order'']),
           (''query'', PyList
            [PyDict
              [(''key'', PyStr ''token''),
               (''value'', PyStr ''PAYPAL_TOKEN''),
               (''description'', PyStr
                  (''Token de PayPal despu'' @ [CHR 0xC3, CHR 0xA9] @ ''s de la aprobaci''
                   @ [CHR 0xC3, CHR 0xB3] @ ''n''))],
             PyDict
              [(''key'', PyStr ''componentId''),
               (''value'', PyStr ''custom-button-1''),
               (''description'', PyStr ''ID del componente (opcional para premium)'')],
             PyDict
              [(''key'', PyStr ''userId''),
               (''value'', PyStr ''USER_ID''),
               (''description'', PyStr ''ID del usuario'')],
             PyDict
              [(''key'', PyStr ''amount''),
               (''value'', PyStr ''25.50''),
               (''description'', PyStr ''Cantidad en MXN'')],
             PyDict
              [(''key'', PyStr ''isPremiumUpgrade''),
               (''value'', PyStr ''false''),
               (''description'', PyStr ''Si es upgrade premium'')]])]),
         (''description'', PyStr
            (''Endpoint llamado por PayPal despu'' @ [CHR 0xC3, CHR 0xA9] @ ''s de la aprobaci''
             @ [CHR 0xC3, CHR 0xB3] @ ''n del pago''))]),
       (''response'', PyList [])]"

definition request_cancel_order_webhook :: py where
  "request_cancel_order_webhook =
     PyDict
      [(''name'', PyStr ''Cancel Order (Webhook)''),
       (''request'', PyDict
        [(''method'', PyStr ''GET''),
         (''header'', PyList []),
         (''url'', PyDict
          [(''raw'', PyStr ''{{base_url}}/api/payment/cancel-order''),
           (''host'', PyList [PyStr ''{{base_url}}'']),
           (''path'', PyList [PyStr ''api'', PyStr ''payment'', PyStr ''cancel-order''])]),
         (''description'', PyStr ''Endpoint llamado cuando el usuario cancela el pago en PayPal'')]),
       (''response'', PyList [])]"

definition create_payments_folder :: py where
  "create_payments_folder =
     PyDict
      [(''name'', PyStr ([CHR 0xF0, CHR 0x9F, CHR 0x92, CHR 0xB3] @ '' Payments'')),
       (''item'', PyList [request_get_pricing_info, request_create_component_donation_order, request_create_premium_upgrade_order, request_capture_order_webhook, request_cancel_order_webhook])]"

definition request_api_documentation :: py where
  "request_api_documentation =
     PyDict
      [(''name'', PyStr ''API Documentation''),
       (''request'', PyDict
        [(''method'', PyStr ''GET''),
         (''header'', PyList []),
         (''url'', PyDict
          [(''raw'', PyStr ''{{base_url}}/api-docs''),
           (''host'', PyList [PyStr ''{{base_url}}'']),
           (''path'', PyList [PyStr ''api-docs''])]),
         (''description'', PyStr (''Accede a la documentaci'' @ [CHR 0xC3, CHR 0xB3] @ ''n Swagger de la API''))]),
       (''response'', PyList [])]"

definition request_health_check :: py where
  "request_health_check =
     PyDict
      [(''name'', PyStr ''Health Check''),
       (''request'', PyDict
        [(''method'', PyStr ''GET''),
         (''header'', PyList []),
         (''url'', PyDict
          [(''raw'', PyStr ''{{base_url}}/''),
           (''host'', PyList [PyStr ''{{base_url}}'']),
           (''path'', PyList [PyStr ''''])]),
         (''description'', PyStr (''Verifica que el servidor est'' @ [CHR 0xC3, CHR 0xA9] @ '' funcionando''))]),
       (''response'', PyList [])]"

definition script_test_flow_complete_user_journey :: py where
  "script_test_flow_complete_user_journey =
     PyList
      [PyStr ''// Test Flow Script'',
       PyStr ''console.log('=== COMPLETE USER JOURNEY TEST ===');'',
       PyStr ''console.log('1. Register user');'',
       PyStr ''console.log('2. Login user');'',
       PyStr ''console.log('3. Get components');'',
       PyStr ''console.log('4. Try to access premium component');'',
       PyStr ''console.log('5. Create payment order');'',
       PyStr ''console.log('6. Check user access after payment');'',
       PyStr ''console.log('=====================================');'']"

definition request_test_flow_complete_user_journey :: py where
  "request_test_flow_complete_user_journey =
     PyDict
      [(''name'', PyStr ''Test Flow - Complete User Journey''),
       (''request'', PyDict
        [(''method'', PyStr ''GET''),
         (''header'', PyList []),
         (''url'', PyDict
          [(''raw'', PyStr ''{{base_url}}/api/components''),
           (''host'', PyList [PyStr ''{{base_url}}'']),
           (''path'', PyList [PyStr ''api'', PyStr ''components''])]),
         (''description'', PyStr ''Endpoint base para testing de flujo completo'')]),
       (''response'', PyList []),
       (''event'', PyList
        [PyDict
          [(''listen'', PyStr ''prerequest''),
           (''script'', PyDict [(''exec'', script_test_flow_complete_user_journey)])]])]"

definition create_utility_folder :: py where
  "create_utility_folder =
     PyDict
      [(''name'', PyStr ([CHR 0xF0, CHR 0x9F, CHR 0x9B, CHR 0xA0, CHR 0xEF, CHR 0xB8, CHR 0x8F] @ '' Utilities & Testing'')),
       (''item'', PyList [request_api_documentation, request_health_check, request_test_flow_complete_user_journey])]"

section \<open>The collection\<close>

text \<open>
  \<^verbatim>\<open>create_postman_collection\<close> builds the root document with an empty \<^verbatim>\<open>item\<close> list and
  then assigns the four folders to \<^verbatim>\<open>collection["item"]\<close>; the only thing it takes from
  outside is the identifier.
\<close>

definition create_postman_collection :: "world \<Rightarrow> py \<times> world" where
  "create_postman_collection w =
     (let (postman_id, w1) = generate_uuid w;
          collection =
            PyDict
             [(''info'', PyDict
               [(''_postman_id'', PyStr postman_id),
                (''name'', PyStr ''Component Store API''),
                (''description'', PyStr
                   (''API completa para el Component Store - Sistema de componentes JSX con ''
                    @ ''donaciones PayPal y acceso premium'')),
                (''schema'', PyStr
                   ''https://schema.getpostman.com/json/collection/v2.1.0/collection.json'')]),
              (''item'', PyList []),
              (''variable'', PyList
               [PyDict
                 [(''key'', PyStr ''base_url''),
                  (''value'', PyStr ''http://localhost:3000''),
                  (''type'', PyStr ''string'')],
                PyDict
                 [(''key'', PyStr ''auth_token''),
                  (''value'', PyStr ''''),
                  (''type'', PyStr ''string'')]]),
              (''auth'', PyDict
               [(''type'', PyStr ''bearer''),
                (''bearer'', PyList
                 [PyDict
                   [(''key'', PyStr ''token''),
                    (''value'', PyStr ''{{auth_token}}''),
                    (''type'', PyStr ''string'')]])])]
      in (py_setitem collection ''item''
            (PyList
              [create_auth_folder, create_components_folder, create_payments_folder,
               create_utility_folder]),
          w1))"

section \<open>The environments\<close>

text \<open>One dict with the two environments, \<^verbatim>\<open>development\<close> first; each draws its own
  identifier, in that order.\<close>

definition create_test_environments :: "world \<Rightarrow> py \<times> world" where
  "create_test_environments w =
     (let (development_id, w1) = generate_uuid w;
          (production_id, w2) = generate_uuid w1
      in (PyDict
           [(''development'', PyDict
             [(''id'', PyStr development_id),
              (''name'', PyStr ''Development Environment''),
              (''values'', PyList
               [PyDict
                 [(''key'', PyStr ''base_url''),
                  (''value'', PyStr ''http://localhost:3000''),
                  (''enabled'', PyBool True)],
                PyDict
                 [(''key'', PyStr ''auth_token''),
                  (''value'', PyStr ''''),
                  (''enabled'', PyBool True)],
                PyDict
                 [(''key'', PyStr ''test_email''),
                  (''value'', PyStr ''test@example.com''),
                  (''enabled'', PyBool True)],
                PyDict
                 [(''key'', PyStr ''test_password''),
                  (''value'', PyStr ''testpassword123''),
                  (''enabled'', PyBool True)]])]),
            (''production'', PyDict
             [(''id'', PyStr production_id),
              (''name'', PyStr ''Production Environment''),
              (''values'', PyList
               [PyDict
                 [(''key'', PyStr ''base_url''),
                  (''value'', PyStr ''https://your-production-url.com''),
                  (''enabled'', PyBool True)],
                PyDict
                 [(''key'', PyStr ''auth_token''),
                  (''value'', PyStr ''''),
                  (''enabled'', PyBool True)]])])],
          w2))"

section \<open>The instructions\<close>

text \<open>\<^verbatim>\<open>generate_readme\<close> returns one literal, given here line by line.\<close>

definition generate_readme :: string where
  "generate_readme =
     concat
      [''\<newline>'',
       ''# Component Store API - Postman Collection\<newline>'',
       ''\<newline>'',
       ''Esta colecci'' @ [CHR 0xC3, CHR 0xB3]
        @ ''n de Postman contiene todas las requests necesarias para probar y documentar''
        @ '' la API del Component Store.\<newline>'',
       ''\<newline>'',
       ''## '' @ [CHR 0xF0, CHR 0x9F, CHR 0x9A, CHR 0x80] @ '' Configuraci'' @ [CHR 0xC3, CHR 0xB3]
        @ ''n Inicial\<newline>'',
       ''\<newline>'',
       ''1. **Importar la colecci'' @ [CHR 0xC3, CHR 0xB3]
        @ ''n**: Importa el archivo `component-store-api.postman_collection.json` en Pos''
        @ ''tman\<newline>'',
       ''2. **Configurar variables**: \<newline>'',
       ''   - `base_url`: URL base de tu API (por defecto: http://localhost:3000)\<newline>'',
       ''   - `auth_token`: Se establecer'' @ [CHR 0xC3, CHR 0xA1] @ '' autom''
        @ [CHR 0xC3, CHR 0xA1] @ ''ticamente despu'' @ [CHR 0xC3, CHR 0xA9]
        @ ''s del login\<newline>'',
       ''\<newline>'',
       ''## '' @ [CHR 0xF0, CHR 0x9F, CHR 0x93, CHR 0x81] @ '' Estructura de la Colecci''
        @ [CHR 0xC3, CHR 0xB3] @ ''n\<newline>'',
       ''\<newline>'',
       ''### '' @ [CHR 0xF0, CHR 0x9F, CHR 0x94, CHR 0x90] @ '' Authentication\<newline>'',
       ''- **Register User**: Crear nuevo usuario\<newline>'',
       ''- **Login User**: Obtener token JWT (se guarda autom'' @ [CHR 0xC3, CHR 0xA1]
        @ ''ticamente)\<newline>'',
       ''\<newline>'',
       ''### '' @ [CHR 0xF0, CHR 0x9F, CHR 0xA7, CHR 0xA9] @ '' Components  \<newline>'',
       ''- **Get All Components**: Lista todos los componentes\<newline>'',
       ''- **Get Components by Type**: Filtrar por tipo de componente\<newline>'',
       ''- **Create Component**: Crear nuevo componente (requiere auth)\<newline>'',
       ''- **Get Specific Component**: Ver detalles de componente (requiere auth/pago''
        @ '')\<newline>'',
       ''- **Get User Access Info**: Ver estado de acceso del usuario\<newline>'',
       ''\<newline>'',
       ''### '' @ [CHR 0xF0, CHR 0x9F, CHR 0x92, CHR 0xB3] @ '' Payments\<newline>'',
       ''- **Get Pricing Info**: Informaci'' @ [CHR 0xC3, CHR 0xB3]
        @ ''n de precios y beneficios\<newline>'',
       ''- **Create Component Donation Order**: Pagar por componente espec'' @ [CHR 0xC3, CHR 0xAD]
        @ ''fico\<newline>'',
       ''- **Create Premium Upgrade Order**: Upgrade a cuenta premium\<newline>'',
       ''- **Capture Order**: Webhook de PayPal ('' @ [CHR 0xC3, CHR 0xA9] @ ''xito)\<newline>'',
       ''- **Cancel Order**: Webhook de PayPal (cancelaci'' @ [CHR 0xC3, CHR 0xB3]
        @ ''n)\<newline>'',
       ''\<newline>'',
       ''### '' @ [CHR 0xF0, CHR 0x9F, CHR 0x9B, CHR 0xA0, CHR 0xEF, CHR 0xB8, CHR 0x8F]
        @ '' Utilities & Testing\<newline>'',
       ''- **API Documentation**: Acceso a Swagger UI\<newline>'',
       ''- **Health Check**: Verificar estado del servidor\<newline>'',
       ''- **Test Flow**: Scripts para testing automatizado\<newline>'',
       ''\<newline>'',
       ''## '' @ [CHR 0xF0, CHR 0x9F, CHR 0x94, CHR 0x84]
        @ '' Flujo de Prueba Recomendado\<newline>'',
       ''\<newline>'',
       ''1. **Registro y Login**:\<newline>'',
       ''   ```\<newline>'',
       ''   POST /api/users/register\<newline>'',
       ''   POST /api/users/login\<newline>'',
       ''   ```\<newline>'',
       ''\<newline>'',
       ''2. **Explorar Componentes**:\<newline>'',
       ''   ```\<newline>'',
       ''   GET /api/components\<newline>'',
       ''   GET /api/components/user/access-info\<newline>'',
       ''   ```\<newline>'',
       ''\<newline>'',
       ''3. **Intentar Acceso a Componente Premium**:\<newline>'',
       ''   ```\<newline>'',
       ''   GET /api/components/{component-id}\<newline>'',
       ''   ```\<newline>'',
       ''\<newline>'',
       ''4. **Proceso de Pago**:\<newline>'',
       ''   ```\<newline>'',
       ''   POST /api/payment/create-order\<newline>'',
       ''   GET /api/payment/capture-order (simulado)\<newline>'',
       ''   ```\<newline>'',
       ''\<newline>'',
       ''5. **Verificar Acceso Actualizado**:\<newline>'',
       ''   ```\<newline>'',
       ''   GET /api/components/user/access-info\<newline>'',
       ''   GET /api/components/{component-id}\<newline>'',
       ''   ```\<newline>'',
       ''\<newline>'',
       ''## '' @ [CHR 0xF0, CHR 0x9F, CHR 0xA7, CHR 0xAA] @ '' Testing Automatizado\<newline>'',
       ''\<newline>'',
       ''La colecci'' @ [CHR 0xC3, CHR 0xB3] @ ''n incluye tests autom'' @ [CHR 0xC3, CHR 0xA1]
        @ ''ticos que:\<newline>'',
       ''- Verifican c'' @ [CHR 0xC3, CHR 0xB3] @ ''digos de respuesta HTTP\<newline>'',
       ''- Validan estructura de respuestas JSON  \<newline>'',
       ''- Guardan tokens autom'' @ [CHR 0xC3, CHR 0xA1] @ ''ticamente\<newline>'',
       ''- Verifican flujos completos\<newline>'',
       ''\<newline>'',
       ''## '' @ [CHR 0xF0, CHR 0x9F, CHR 0x94, CHR 0xA7] @ '' Variables de Entorno\<newline>'',
       ''\<newline>'',
       ''### Development\<newline>'',
       ''- `base_url`: http://localhost:3000\<newline>'',
       ''- `test_email`: test@example.com\<newline>'',
       ''- `test_password`: testpassword123\<newline>'',
       ''\<newline>'',
       ''### Production  \<newline>'',
       ''- `base_url`: https://your-production-url.com\<newline>'',
       ''\<newline>'',
       ''## '' @ [CHR 0xF0, CHR 0x9F, CHR 0x93, CHR 0x9D] @ '' Notas Importantes\<newline>'',
       ''\<newline>'',
       ''- **Autenticaci'' @ [CHR 0xC3, CHR 0xB3] @ ''n**: El token se guarda autom''
        @ [CHR 0xC3, CHR 0xA1] @ ''ticamente despu'' @ [CHR 0xC3, CHR 0xA9]
        @ ''s del login\<newline>'',
       ''- **PayPal Testing**: Usa el sandbox de PayPal para pruebas\<newline>'',
       ''- **Premium Access**: Se requieren $50 MXN para acceso premium\<newline>'',
       ''- **Free Access**: Limitado a 2 componentes gratuitos\<newline>'',
       ''\<newline>'',
       ''## '' @ [CHR 0xF0, CHR 0x9F, CHR 0x9A, CHR 0xA8] @ '' Configuraci'' @ [CHR 0xC3, CHR 0xB3]
        @ ''n de PayPal\<newline>'',
       ''\<newline>'',
       ''Para testing completo, configura las variables de entorno:\<newline>'',
       ''```\<newline>'',
       ''PAYPAL_API_CLIENT=your_sandbox_client_id\<newline>'',
       ''PAYPAL_API_SECRET=your_sandbox_client_secret\<newline>'',
       ''PAYPAL_API_URL=https://api.sandbox.paypal.com\<newline>'',
       ''```\<newline>'',
       ''\<newline>'',
       ''## '' @ [CHR 0xF0, CHR 0x9F, CHR 0x93, CHR 0x8A] @ '' Monitoreo y Analytics\<newline>'',
       ''\<newline>'',
       ''Usa Postman Monitor para:\<newline>'',
       ''- Ejecutar tests autom'' @ [CHR 0xC3, CHR 0xA1] @ ''ticamente\<newline>'',
       ''- Monitorear uptime de la API\<newline>'',
       ''- Generar reportes de performance\<newline>'',
       ''- Alertas por fallos\<newline>'',
       ''\<newline>'',
       ''---\<newline>'',
       ''\<newline>'',
       ''**'' @ [CHR 0xC2, CHR 0xBF] @ ''Necesitas ayuda?** Consulta la documentaci''
        @ [CHR 0xC3, CHR 0xB3] @ ''n Swagger en `/api-docs`\<newline>'']"

section \<open>The driver\<close>

definition collection_filename :: "string \<Rightarrow> string" where
  "collection_filename timestamp =
     ''component-store-api_'' @ timestamp @ ''.postman_collection.json''"

definition env_filename :: "string \<Rightarrow> string \<Rightarrow> string" where
  "env_filename env_name timestamp =
     ''component-store-'' @ env_name @ ''_'' @ timestamp @ ''.postman_environment.json''"

definition readme_filename :: "string \<Rightarrow> string" where
  "readme_filename timestamp = ''POSTMAN_README_'' @ timestamp @ ''.md''"

text \<open>The first line \<^verbatim>\<open>main\<close> prints, before anything is built.\<close>

definition banner :: string where
  "banner =
     [CHR 0xF0, CHR 0x9F, CHR 0x9A, CHR 0x80] @ '' Generando colecci'' @ [CHR 0xC3, CHR 0xB3]
     @ ''n de Postman para Component Store API...''"

text \<open>The lines \<^verbatim>\<open>main\<close> prints once every file is written.\<close>

definition success_report :: "string \<Rightarrow> string list" where
  "success_report timestamp =
     [[CHR 0xE2, CHR 0x9C, CHR 0x85] @ '' Archivos generados exitosamente:'',
      ''   '' @ [CHR 0xF0, CHR 0x9F, CHR 0x93, CHR 0x84] @ '' Colecci'' @ [CHR 0xC3, CHR 0xB3]
      @ ''n: '' @ collection_filename timestamp,
      ''   '' @ [CHR 0xF0, CHR 0x9F, CHR 0x8C, CHR 0x8D]
      @ '' Entorno Development: component-store-development_'' @ timestamp @ ''.postman_environment.json'',
      ''   '' @ [CHR 0xF0, CHR 0x9F, CHR 0x8C, CHR 0x8D]
      @ '' Entorno Production: component-store-production_'' @ timestamp @ ''.postman_environment.json'',
      ''   '' @ [CHR 0xF0, CHR 0x9F, CHR 0x93, CHR 0x96] @ '' README: '' @ readme_filename timestamp,
      '''',
      [CHR 0xF0, CHR 0x9F, CHR 0x93, CHR 0xA5] @ '' **Instrucciones de importaci''
      @ [CHR 0xC3, CHR 0xB3] @ ''n:**'',
      ''1. Abre Postman'',
      ''2. Click en 'Import' '',
      ''3. Arrastra los archivos .json generados'',
      ''4. Configura las variables de entorno seg'' @ [CHR 0xC3, CHR 0xBA] @ ''n tus necesidades'',
      ''5. '' @ [CHR 0xC2, CHR 0xA1] @ ''Comienza a probar tu API!'',
      '''',
      [CHR 0xF0, CHR 0x9F, CHR 0x94, CHR 0x97] @ '' **Endpoints principales:**'',
      ''   '' @ [CHR 0xE2, CHR 0x80, CHR 0xA2] @ '' Registro: POST /api/users/register'',
      ''   '' @ [CHR 0xE2, CHR 0x80, CHR 0xA2] @ '' Login: POST /api/users/login'',
      ''   '' @ [CHR 0xE2, CHR 0x80, CHR 0xA2] @ '' Componentes: GET /api/components'',
      ''   '' @ [CHR 0xE2, CHR 0x80, CHR 0xA2] @ '' Pagos: POST /api/payment/create-order'',
      ''   '' @ [CHR 0xE2, CHR 0x80, CHR 0xA2] @ '' Documentaci'' @ [CHR 0xC3, CHR 0xB3]
      @ ''n: GET /api-docs'']"

text \<open>
  \<^verbatim>\<open>for env_name, env_data in environments.items():\<close> with the \<^verbatim>\<open>with open\<close> block as
  its body. An exception raised in the body ends the loop.
\<close>

fun write_environments ::
  "string \<Rightarrow> (string \<times> py) list \<Rightarrow> world \<Rightarrow> (exn + unit) \<times> world" where
  "write_environments timestamp [] w = (Inr (), w)"
| "write_environments timestamp ((env_name, env_data) # rest) w =
     (case write_file (env_filename env_name timestamp) (json_dump_text env_data (Some 2)) w of
        (Inl e, w1) \<Rightarrow> (Inl e, w1)
      | (Inr u, w1) \<Rightarrow> write_environments timestamp rest w1)"

text \<open>The \<^verbatim>\<open>print\<close> statements that end \<^verbatim>\<open>main\<close>, one after the other: the first that
  raises ends them.\<close>

fun print_all :: "string list \<Rightarrow> world \<Rightarrow> (exn + unit) \<times> world" where
  "print_all [] w = (Inr (), w)"
| "print_all (line # rest) w =
     (case py_print line w of
        (Inl e, w1) \<Rightarrow> (Inl e, w1)
      | (Inr u, w1) \<Rightarrow> print_all rest w1)"

text \<open>
  \<^verbatim>\<open>main\<close>. It has no \<^verbatim>\<open>try\<close>: an exception raised by a \<^verbatim>\<open>print\<close> or by a write leaves
  \<^verbatim>\<open>main\<close> at that statement, and what comes after it is not run.
\<close>

definition main :: "world \<Rightarrow> (exn + unit) \<times> world" where
  "main w0 =
     (case py_print banner w0 of
        (Inl e, w1) \<Rightarrow> (Inl e, w1)
      | (Inr u, w1) \<Rightarrow>
          (let (collection, w2) = create_postman_collection w1;
               (environments, w3) = create_test_environments w2;
               readme = generate_readme;
               timestamp = strftime (clock w3)
           in case write_file (collection_filename timestamp)
                     (json_dump_text collection (Some 2)) w3 of
                (Inl e, w4) \<Rightarrow> (Inl e, w4)
              | (Inr u, w4) \<Rightarrow>
                  (case write_environments timestamp (dict_items environments) w4 of
                     (Inl e, w5) \<Rightarrow> (Inl e, w5)
                   | (Inr u, w5) \<Rightarrow>
                       (case write_file (readme_filename timestamp) readme w5 of
                          (Inl e, w6) \<Rightarrow> (Inl e, w6)
                        | (Inr u, w6) \<Rightarrow> print_all (success_report timestamp) w6))))"

text \<open>
  \<^verbatim>\<open>if __name__ == "__main__": main()\<close>, as the interpreter runs it. The exit status is
  120 when the standard output cannot be flushed at exit, whatever \<^verbatim>\<open>main\<close> did; else it
  is 1 when an exception left \<^verbatim>\<open>main\<close> uncaught and 0 when \<^verbatim>\<open>main\<close> returned.
\<close>

definition run_script :: "world \<Rightarrow> nat \<times> world" where
  "run_script w =
     (case main w of
        (Inl e, w') \<Rightarrow> (if flush_fails w' then 120 else 1, w')
      | (Inr u, w') \<Rightarrow> (if flush_fails w' then 120 else 0, w'))"

section \<open>Reading the documents\<close>

text \<open>
  The statements below read the documents the way the tool that imports them does: by
  key. A folder's \<^verbatim>\<open>item\<close> list holds its request descriptors, a descriptor's
  \<^verbatim>\<open>request\<close> dict its method, headers, URL and, where it has them, body and auth.
\<close>

definition py_items_at :: "py \<Rightarrow> string list \<Rightarrow> py list" where
  "py_items_at v ks = (case py_path v ks of Some x \<Rightarrow> py_list x | None \<Rightarrow> [])"

definition py_str_at :: "py \<Rightarrow> string list \<Rightarrow> string option" where
  "py_str_at v ks = (case py_path v ks of Some x \<Rightarrow> py_str x | None \<Rightarrow> None)"

definition folders :: "py \<Rightarrow> py list" where
  "folders collection = py_items_at collection [''item'']"

definition folder_requests :: "py \<Rightarrow> py list" where
  "folder_requests folder = py_items_at folder [''item'']"

definition all_requests :: "py \<Rightarrow> py list" where
  "all_requests collection = concat (map folder_requests (folders collection))"

text \<open>The strings of a list of strings; \<open>None\<close> when an element is not a string.\<close>

fun py_strs :: "py list \<Rightarrow> string list option" where
  "py_strs [] = Some []"
| "py_strs (x # xs) =
     (case (py_str x, py_strs xs) of (Some s, Some ss) \<Rightarrow> Some (s # ss) | _ \<Rightarrow> None)"

text \<open>Headers and query parameters are dicts with a \<^verbatim>\<open>key\<close> and a \<^verbatim>\<open>value\<close>.\<close>

definition key_value :: "py \<Rightarrow> string option \<times> string option" where
  "key_value d = (py_str_at d [''key''], py_str_at d [''value''])"

definition headers :: "py \<Rightarrow> (string option \<times> string option) list" where
  "headers r = map key_value (py_items_at r [''request'', ''header''])"

definition has_header :: "py \<Rightarrow> string \<Rightarrow> string \<Rightarrow> bool" where
  "has_header r k v = list_ex (\<lambda>h. h = (Some k, Some v)) (headers r)"

definition header_keys :: "py \<Rightarrow> string option list" where
  "header_keys r = map fst (headers r)"

definition url_raw :: "py \<Rightarrow> string option" where
  "url_raw r = py_str_at r [''request'', ''url'', ''raw'']"

text \<open>
  The URL as the specification rebuilds it from the other fields of the \<^verbatim>\<open>url\<close> dict: the
  placeholder, a slash and the path segments joined by slashes, and, when the dict has a
  \<^verbatim>\<open>query\<close>, a question mark and the \<^verbatim>\<open>key=value\<close> pairs joined by ampersands.
\<close>

fun key_value_pairs :: "(string option \<times> string option) list \<Rightarrow> (string \<times> string) list option" where
  "key_value_pairs [] = Some []"
| "key_value_pairs ((Some k, Some v) # r) = map_option ((#) (k, v)) (key_value_pairs r)"
| "key_value_pairs (_ # r) = None"

definition query_string :: "py list \<Rightarrow> string option" where
  "query_string params =
     map_option (\<lambda>kvs. str_join ''&'' (map (\<lambda>(k, v). k @ ''='' @ v) kvs))
       (key_value_pairs (map key_value params))"

definition url_rebuilt :: "py \<Rightarrow> string option" where
  "url_rebuilt r =
     (case py_path r [''request'', ''url'', ''path''] of
        None \<Rightarrow> None
      | Some p \<Rightarrow>
          (case py_strs (py_list p) of
             None \<Rightarrow> None
           | Some segments \<Rightarrow>
               (case py_path r [''request'', ''url'', ''query''] of
                  None \<Rightarrow> Some (''{{base_url}}'' @ ''/'' @ str_join ''/'' segments)
                | Some q \<Rightarrow>
                    (case query_string (py_list q) of
                       None \<Rightarrow> None
                     | Some qs \<Rightarrow>
                         Some (''{{base_url}}'' @ ''/'' @ str_join ''/'' segments @ ''?'' @ qs)))))"

definition req_method :: "py \<Rightarrow> string option" where
  "req_method r = py_str_at r [''request'', ''method'']"

definition req_body :: "py \<Rightarrow> py option" where
  "req_body r = py_path r [''request'', ''body'']"

definition req_auth :: "py \<Rightarrow> py option" where
  "req_auth r = py_path r [''request'', ''auth'']"

definition body_mode :: "py \<Rightarrow> string option" where
  "body_mode r = py_str_at r [''request'', ''body'', ''mode'']"

definition body_raw :: "py \<Rightarrow> string option" where
  "body_raw r = py_str_at r [''request'', ''body'', ''raw'']"

definition folder_name :: "py \<Rightarrow> string option" where
  "folder_name folder = py_str_at folder [''name'']"

definition request_name :: "py \<Rightarrow> string option" where
  "request_name r = py_str_at r [''name'']"

text \<open>The keys of the variables of one environment of \<^verbatim>\<open>create_test_environments\<close>'s
  result, in order.\<close>

definition env_keys :: "py \<Rightarrow> string \<Rightarrow> string option list" where
  "env_keys environments env_name =
     map (\<lambda>v. py_str_at v [''key'']) (py_items_at environments [env_name, ''values''])"

text \<open>
  The statement lists of the scripts a descriptor runs after the response arrived
  (Postman's \<^verbatim>\<open>test\<close> event; \<^verbatim>\<open>prerequest\<close> is the one before sending).
\<close>

definition post_response_scripts :: "py \<Rightarrow> string list list" where
  "post_response_scripts r =
     map (\<lambda>e. List.map_filter py_str (py_items_at e [''script'', ''exec'']))
       (filter (\<lambda>e. py_str_at e [''listen''] = Some ''test'') (py_items_at r [''event'']))"

fun has_infix :: "string \<Rightarrow> string \<Rightarrow> bool" where
  "has_infix [] p = (p = [])"
| "has_infix (c # cs) p = (starts_with (c # cs) p \<or> has_infix cs p)"

text \<open>
  The scripts are text to this program. A statement is taken to write the collection
  variable \<open>name\<close> when it holds the call \<^verbatim>\<open>pm.collectionVariables.set('name',\<close> and a
  value refers to the variable when it is \<^verbatim>\<open>{{name}}\<close>.
\<close>

definition sets_collection_variable :: "string \<Rightarrow> string \<Rightarrow> bool" where
  "sets_collection_variable name stmt =
     has_infix stmt (''pm.collectionVariables.set('' @ [CHR 0x27] @ name @ [CHR 0x27] @ '','')"

definition variable_reference :: "string \<Rightarrow> string" where
  "variable_reference name = ''{{'' @ name @ ''}}''"

text \<open>The files of a run in the order \<^verbatim>\<open>main\<close> writes them, and the text it writes to
  each.\<close>

definition artifact_paths :: "string \<Rightarrow> string list" where
  "artifact_paths timestamp =
     [collection_filename timestamp,
      env_filename ''development'' timestamp,
      env_filename ''production'' timestamp,
      readme_filename timestamp]"

definition artifact_texts :: "world \<Rightarrow> string list" where
  "artifact_texts w =
     (let (collection, w1) = create_postman_collection w;
          (environments, w2) = create_test_environments w1
      in json_dump_text collection (Some 2)
         # map (\<lambda>(env_name, env_data). json_dump_text env_data (Some 2)) (dict_items environments)
         @ [generate_readme])"

section \<open>Sample runs\<close>

text \<open>
  Three worlds to run the program in: one where every write succeeds, one where the
  collection file cannot be opened, and one where the disk fills up while the
  development environment is written. In all three the standard output takes every line
  and is flushed at exit.
\<close>

definition sample_clock :: datetime where
  "sample_clock = \<lparr>year = 2024, month = 3, day = 9, hour = 14, minute = 5, second = 7\<rparr>"

definition quiet_world :: world where
  "quiet_world =
     \<lparr>uuid_source = (\<lambda>n. ''3f2b8c1e-0000-4000-8000-00000000000'' @ str_nat (n mod 10)),
      uuid_drawn = 0,
      clock = sample_clock,
      fs_fault = (\<lambda>p. None),
      files = Map.empty,
      stdout_fault = (\<lambda>n line. None),
      flush_fails = False,
      stdout = []\<rparr>"

definition readonly_world :: world where
  "readonly_world =
     quiet_world
       \<lparr>fs_fault :=
          (\<lambda>p. if p = ''component-store-api_20240309_140507.postman_collection.json''
                then Some OpenFails else None)\<rparr>"

definition full_disk_world :: world where
  "full_disk_world =
     quiet_world
       \<lparr>fs_fault :=
          (\<lambda>p. if p = ''component-store-development_20240309_140507.postman_environment.json''
                then Some (WriteFails 64) else None)\<rparr>"

section \<open>Evaluation\<close>

text \<open>The two character classes by the bits of the character, for evaluation.\<close>

lemma is_control_Char [code]:
  "is_control (Char b0 b1 b2 b3 b4 b5 b6 b7) = (\<not> b5 \<and> \<not> b6 \<and> \<not> b7)"
  by (cases b0; cases b1; cases b2; cases b3; cases b4; cases b5; cases b6; cases b7)
     (simp_all add: is_control_def)

lemma is_ascii_Char [code]:
  "is_ascii (Char b0 b1 b2 b3 b4 b5 b6 b7) = (\<not> b7)"
  by (cases b0; cases b1; cases b2; cases b3; cases b4; cases b5; cases b6; cases b7)
     (simp_all add: is_ascii_def)

lemmas request_defs =
  request_register_user_def request_login_user_def request_get_all_components_def
  request_get_components_by_type_def request_get_components_by_type_path_def
  request_create_component_def request_get_specific_component_def
  request_get_user_access_info_def request_get_pricing_info_def
  request_create_component_donation_order_def request_create_premium_upgrade_order_def
  request_capture_order_webhook_def request_cancel_order_webhook_def
  request_api_documentation_def request_health_check_def
  request_test_flow_complete_user_journey_def

lemmas folder_defs =
  create_auth_folder_def create_components_folder_def create_payments_folder_def
  create_utility_folder_def

lemmas reader_defs =
  py_items_at_def py_str_at_def key_value_def headers_def has_header_def header_keys_def url_raw_def
  url_rebuilt_def query_string_def req_method_def req_body_def req_auth_def body_mode_def
  body_raw_def folder_name_def request_name_def

section \<open>The collection's folders and descriptors\<close>

lemma collection_folders:
  "folders (fst (create_postman_collection w)) =
     [create_auth_folder, create_components_folder, create_payments_folder,
      create_utility_folder]"
  by (simp add: create_postman_collection_def generate_uuid_def folders_def py_items_at_def)

lemma collection_requests:
  "all_requests (fst (create_postman_collection w)) =
     [request_register_user, request_login_user,
      request_get_all_components, request_get_components_by_type,
      request_get_components_by_type_path, request_create_component,
      request_get_specific_component, request_get_user_access_info,
      request_get_pricing_info, request_create_component_donation_order,
      request_create_premium_upgrade_order, request_capture_order_webhook,
      request_cancel_order_webhook,
      request_api_documentation, request_health_check,
      request_test_flow_complete_user_journey]"
  by (simp add: all_requests_def collection_folders folder_requests_def py_items_at_def
      folder_defs)

lemma request_names:
  "map request_name (all_requests (fst (create_postman_collection w))) =
     [Some ''Register User'', Some ''Login User'', Some ''Get All Components'',
      Some ''Get Components by Type'', Some ''Get Components by Type (Path)'',
      Some ''Create Component'', Some ''Get Specific Component'', Some ''Get User Access Info'',
      Some ''Get Pricing Info'', Some ''Create Component Donation Order'',
      Some ''Create Premium Upgrade Order'', Some ''Capture Order (Webhook)'',
      Some ''Cancel Order (Webhook)'', Some ''API Documentation'', Some ''Health Check'',
      Some ''Test Flow - Complete User Journey'']"
  unfolding collection_requests
  by (simp add: request_defs reader_defs)

lemma distinct_request_names:
  "distinct (map request_name (all_requests (fst (create_postman_collection w))))"
  unfolding request_names by simp

lemma request_name_each:
  "request_name request_register_user = Some ''Register User''"
  "request_name request_login_user = Some ''Login User''"
  "request_name request_get_all_components = Some ''Get All Components''"
  "request_name request_get_components_by_type = Some ''Get Components by Type''"
  "request_name request_get_components_by_type_path = Some ''Get Components by Type (Path)''"
  "request_name request_create_component = Some ''Create Component''"
  "request_name request_get_specific_component = Some ''Get Specific Component''"
  "request_name request_get_user_access_info = Some ''Get User Access Info''"
  "request_name request_get_pricing_info = Some ''Get Pricing Info''"
  "request_name request_create_component_donation_order
     = Some ''Create Component Donation Order''"
  "request_name request_create_premium_upgrade_order = Some ''Create Premium Upgrade Order''"
  "request_name request_capture_order_webhook = Some ''Capture Order (Webhook)''"
  "request_name request_cancel_order_webhook = Some ''Cancel Order (Webhook)''"
  "request_name request_api_documentation = Some ''API Documentation''"
  "request_name request_health_check = Some ''Health Check''"
  "request_name request_test_flow_complete_user_journey
     = Some ''Test Flow - Complete User Journey''"
  using request_names [of undefined, unfolded collection_requests] by simp_all

section \<open>URLs\<close>

text \<open>
  C1. For every request descriptor of the four folders, the \<^verbatim>\<open>raw\<close> string of its URL is
  there and is, character for character, the placeholder \<^verbatim>\<open>{{base_url}}\<close>, a slash and the
  path segments joined by slashes, followed, when the URL declares query parameters, by a
  question mark and their \<^verbatim>\<open>key=value\<close> pairs joined by ampersands in the declared order.
  The \<^verbatim>\<open>host\<close> list of every URL is that one placeholder.
\<close>

theorem raw_url_is_rebuilt:
  "\<forall>r \<in> set (all_requests (fst (create_postman_collection w))).
     url_raw r \<noteq> None \<and> url_raw r = url_rebuilt r
     \<and> py_path r [''request'', ''url'', ''host''] = Some (PyList [PyStr ''{{base_url}}''])"
  unfolding collection_requests
  by (simp add: request_defs reader_defs)

text \<open>The descriptor with the five query parameters, in the run where every write
  succeeds.\<close>

theorem raw_url_is_rebuilt_witness:
  "url_rebuilt request_capture_order_webhook =
     Some (''{{base_url}}/api/payment/capture-order?token=PAYPAL_TOKEN&componentId=custom-button-1''
           @ ''&userId=USER_ID&amount=25.50&isPremiumUpgrade=false'')"
proof -
  have "request_capture_order_webhook
          \<in> set (all_requests (fst (create_postman_collection quiet_world)))"
    by (simp add: collection_requests)
  with raw_url_is_rebuilt [of quiet_world]
  have "url_raw request_capture_order_webhook = url_rebuilt request_capture_order_webhook"
    by blast
  moreover have "url_raw request_capture_order_webhook =
     Some (''{{base_url}}/api/payment/capture-order?token=PAYPAL_TOKEN&componentId=custom-button-1''
           @ ''&userId=USER_ID&amount=25.50&isPremiumUpgrade=false'')"
    by (simp add: request_capture_order_webhook_def reader_defs)
  ultimately show ?thesis by simp
qed

section \<open>Folders\<close>

text \<open>
  C2. The \<^verbatim>\<open>item\<close> list of the collection is the four folders in the order Authentication,
  Components, Payments, Utilities (each name after its glyph, the last one in full
  ``Utilities & Testing''), with 2, 6, 5 and 3 descriptors. Their descriptors, taken
  together, are the sixteen descriptors of the source, each once: none is in two folders,
  none is twice in one, none is left out.
\<close>

theorem four_folders_partition_requests:
  "folders (fst (create_postman_collection w)) =
     [create_auth_folder, create_components_folder, create_payments_folder,
      create_utility_folder]
   \<and> map folder_name (folders (fst (create_postman_collection w))) =
       [Some ([CHR 0xF0, CHR 0x9F, CHR 0x94, CHR 0x90] @ '' Authentication''),
        Some ([CHR 0xF0, CHR 0x9F, CHR 0xA7, CHR 0xA9] @ '' Components''),
        Some ([CHR 0xF0, CHR 0x9F, CHR 0x92, CHR 0xB3] @ '' Payments''),
        Some ([CHR 0xF0, CHR 0x9F, CHR 0x9B, CHR 0xA0, CHR 0xEF, CHR 0xB8, CHR 0x8F]
              @ '' Utilities & Testing'')]
   \<and> map (length \<circ> folder_requests) (folders (fst (create_postman_collection w))) = [2, 6, 5, 3]
   \<and> distinct (concat (map folder_requests (folders (fst (create_postman_collection w)))))
   \<and> concat (map folder_requests (folders (fst (create_postman_collection w)))) =
       [request_register_user, request_login_user,
        request_get_all_components, request_get_components_by_type,
        request_get_components_by_type_path, request_create_component,
        request_get_specific_component, request_get_user_access_info,
        request_get_pricing_info, request_create_component_donation_order,
        request_create_premium_upgrade_order, request_capture_order_webhook,
        request_cancel_order_webhook,
        request_api_documentation, request_health_check,
        request_test_flow_complete_user_journey]"
proof -
  let ?c = "fst (create_postman_collection w)"
  have 1: "folders ?c =
     [create_auth_folder, create_components_folder, create_payments_folder,
      create_utility_folder]"
    by (rule collection_folders)
  have 2: "map folder_name (folders ?c) =
       [Some ([CHR 0xF0, CHR 0x9F, CHR 0x94, CHR 0x90] @ '' Authentication''),
        Some ([CHR 0xF0, CHR 0x9F, CHR 0xA7, CHR 0xA9] @ '' Components''),
        Some ([CHR 0xF0, CHR 0x9F, CHR 0x92, CHR 0xB3] @ '' Payments''),
        Some ([CHR 0xF0, CHR 0x9F, CHR 0x9B, CHR 0xA0, CHR 0xEF, CHR 0xB8, CHR 0x8F]
              @ '' Utilities & Testing'')]"
    by (simp add: collection_folders folder_defs reader_defs)
  have 3: "map (length \<circ> folder_requests) (folders ?c) = [2, 6, 5, 3]"
    by (simp add: collection_folders folder_defs folder_requests_def reader_defs)
  have "distinct (all_requests ?c)"
    using distinct_request_names [of w] by (simp only: distinct_map)
  then have 4: "distinct (concat (map folder_requests (folders ?c)))"
    by (simp only: all_requests_def)
  have 5: "concat (map folder_requests (folders ?c)) =
       [request_register_user, request_login_user,
        request_get_all_components, request_get_components_by_type,
        request_get_components_by_type_path, request_create_component,
        request_get_specific_component, request_get_user_access_info,
        request_get_pricing_info, request_create_component_donation_order,
        request_create_premium_upgrade_order, request_capture_order_webhook,
        request_cancel_order_webhook,
        request_api_documentation, request_health_check,
        request_test_flow_complete_user_journey]"
    using collection_requests [of w] by (simp only: all_requests_def)
  from 1 2 3 4 5 show ?thesis by (intro conjI)
qed

section \<open>Two runs\<close>

text \<open>
  C3. Take two runs, in any two worlds. The collections they build have the same \<^verbatim>\<open>item\<close>
  and the same \<^verbatim>\<open>variable\<close>, so the text written for these parts is the same, byte for
  byte. The documents agree on every top-level field but \<^verbatim>\<open>info\<close>, and their \<^verbatim>\<open>info\<close>
  agree on every field but \<^verbatim>\<open>_postman_id\<close>, which is the identifier the run drew. The
  file names of the two collections are equal exactly when the two timestamps are.
\<close>

theorem runs_differ_only_in_identifier:
  "py_get (fst (create_postman_collection w1)) ''item''
     = py_get (fst (create_postman_collection w2)) ''item''
   \<and> py_get (fst (create_postman_collection w1)) ''variable''
     = py_get (fst (create_postman_collection w2)) ''variable''
   \<and> py_get (fst (create_postman_collection w1)) ''item'' \<noteq> None
   \<and> py_get (fst (create_postman_collection w1)) ''variable'' \<noteq> None
   \<and> map_option (\<lambda>v. json_dump_text v (Some 2))
        (py_get (fst (create_postman_collection w1)) ''item'')
     = map_option (\<lambda>v. json_dump_text v (Some 2))
        (py_get (fst (create_postman_collection w2)) ''item'')
   \<and> map_option (\<lambda>v. json_dump_text v (Some 2))
        (py_get (fst (create_postman_collection w1)) ''variable'')
     = map_option (\<lambda>v. json_dump_text v (Some 2))
        (py_get (fst (create_postman_collection w2)) ''variable'')
   \<and> map fst (dict_items (fst (create_postman_collection w1)))
     = [''info'', ''item'', ''variable'', ''auth'']
   \<and> filter (\<lambda>(k, v). k \<noteq> ''info'') (dict_items (fst (create_postman_collection w1)))
     = filter (\<lambda>(k, v). k \<noteq> ''info'') (dict_items (fst (create_postman_collection w2)))
   \<and> map_option (filter (\<lambda>(k, v). k \<noteq> ''_postman_id'') \<circ> dict_items)
        (py_get (fst (create_postman_collection w1)) ''info'')
     = map_option (filter (\<lambda>(k, v). k \<noteq> ''_postman_id'') \<circ> dict_items)
        (py_get (fst (create_postman_collection w2)) ''info'')
   \<and> py_path (fst (create_postman_collection w1)) [''info'', ''_postman_id'']
     = Some (PyStr (uuid_source w1 (uuid_drawn w1)))
   \<and> (collection_filename t1 = collection_filename t2) = (t1 = t2)"
  by (simp add: create_postman_collection_def generate_uuid_def collection_filename_def)

section \<open>Environments\<close>

text \<open>
  C4. Whatever identifiers are drawn, the development environment carries exactly the
  variables \<^verbatim>\<open>base_url\<close>, \<^verbatim>\<open>auth_token\<close>, \<^verbatim>\<open>test_email\<close>, \<^verbatim>\<open>test_password\<close> and the production
  environment exactly \<^verbatim>\<open>base_url\<close>, \<^verbatim>\<open>auth_token\<close>: the production keys are a strict subset of
  the development keys, neither \<^verbatim>\<open>test_email\<close> nor \<^verbatim>\<open>test_password\<close> is a production key, and
  neither environment is empty. These two are the only environments.
\<close>

theorem production_keys_within_development:
  "env_keys (fst (create_test_environments w)) ''development'' =
     [Some ''base_url'', Some ''auth_token'', Some ''test_email'', Some ''test_password'']
   \<and> env_keys (fst (create_test_environments w)) ''production'' =
     [Some ''base_url'', Some ''auth_token'']
   \<and> set (env_keys (fst (create_test_environments w)) ''production'')
       \<subset> set (env_keys (fst (create_test_environments w)) ''development'')
   \<and> Some ''test_email'' \<notin> set (env_keys (fst (create_test_environments w)) ''production'')
   \<and> Some ''test_password'' \<notin> set (env_keys (fst (create_test_environments w)) ''production'')
   \<and> env_keys (fst (create_test_environments w)) ''development'' \<noteq> []
   \<and> env_keys (fst (create_test_environments w)) ''production'' \<noteq> []
   \<and> map fst (dict_items (fst (create_test_environments w))) = [''development'', ''production'']"
proof -
  let ?dev = "env_keys (fst (create_test_environments w)) ''development''"
  let ?prod = "env_keys (fst (create_test_environments w)) ''production''"
  have d: "?dev = [Some ''base_url'', Some ''auth_token'', Some ''test_email'', Some ''test_password'']"
    by (simp add: create_test_environments_def generate_uuid_def env_keys_def reader_defs)
  have p: "?prod = [Some ''base_url'', Some ''auth_token'']"
    by (simp add: create_test_environments_def generate_uuid_def env_keys_def reader_defs)
  have e: "map fst (dict_items (fst (create_test_environments w))) = [''development'', ''production'']"
    by (simp add: create_test_environments_def generate_uuid_def)
  have sub: "set ?prod \<subseteq> set ?dev"
    unfolding d p by simp
  have in_dev: "Some ''test_email'' \<in> set ?dev"
    unfolding d by simp
  have no_email: "Some ''test_email'' \<notin> set ?prod"
    unfolding p by simp
  have no_password: "Some ''test_password'' \<notin> set ?prod"
    unfolding p by simp
  have "set ?prod \<noteq> set ?dev"
  proof
    assume "set ?prod = set ?dev"
    with in_dev have "Some ''test_email'' \<in> set ?prod"
      by (simp only:)
    with no_email show False ..
  qed
  with sub have strict: "set ?prod \<subset> set ?dev"
    by (rule psubsetI)
  have nd: "?dev \<noteq> []" unfolding d by simp
  have np: "?prod \<noteq> []" unfolding p by simp
  from d p strict no_email no_password nd np e show ?thesis
    by (intro conjI)
qed

section \<open>The bearer token\<close>

lemma login_sets_auth_token:
  "sets_collection_variable ''auth_token''
     ''    pm.collectionVariables.set('auth_token', response.token);''"
  by (simp add: sets_collection_variable_def starts_with_def)

text \<open>
  C5. The collection's \<^verbatim>\<open>auth\<close> block has type \<^verbatim>\<open>bearer\<close> with one parameter, \<^verbatim>\<open>token\<close>,
  whose value is the reference \<^verbatim>\<open>{{auth_token}}\<close>; the first folder is Authentication, and
  one of its requests has a post-response script with a statement that writes the
  collection variable of exactly that name, \<^verbatim>\<open>auth_token\<close>. The collection declares this
  variable.
\<close>

theorem bearer_token_is_written_by_login:
  "py_get (fst (create_postman_collection w)) ''auth'' =
     Some (PyDict
            [(''type'', PyStr ''bearer''),
             (''bearer'', PyList
               [PyDict
                 [(''key'', PyStr ''token''),
                  (''value'', PyStr (variable_reference ''auth_token'')),
                  (''type'', PyStr ''string'')]])])
   \<and> folder_name (folders (fst (create_postman_collection w)) ! 0) =
       Some ([CHR 0xF0, CHR 0x9F, CHR 0x94, CHR 0x90] @ '' Authentication'')
   \<and> (\<exists>r \<in> set (folder_requests (folders (fst (create_postman_collection w)) ! 0)).
        \<exists>script \<in> set (post_response_scripts r).
          \<exists>stmt \<in> set script. sets_collection_variable ''auth_token'' stmt)
   \<and> list_ex (\<lambda>v. py_str_at v [''key''] = Some ''auth_token'')
         (py_items_at (fst (create_postman_collection w)) [''variable''])"
proof -
  let ?c = "fst (create_postman_collection w)"
  let ?script =
    "[''if (pm.response.code === 200) {'',
      ''    const response = pm.response.json();'',
      ''    pm.test('Login successful', function() {'',
      ''        pm.expect(response).to.have.property('token');'',
      ''    });'',
      ''    // Guardar token para otras requests'',
      ''    pm.collectionVariables.set('auth_token', response.token);'',
      ''}'']"
  have 1: "py_get ?c ''auth'' =
     Some (PyDict
            [(''type'', PyStr ''bearer''),
             (''bearer'', PyList
               [PyDict
                 [(''key'', PyStr ''token''),
                  (''value'', PyStr (variable_reference ''auth_token'')),
                  (''type'', PyStr ''string'')]])])"
    by (simp add: create_postman_collection_def generate_uuid_def variable_reference_def)
  have f: "folders ?c ! 0 = create_auth_folder"
    by (simp add: collection_folders)
  have 2: "folder_name (folders ?c ! 0) =
       Some ([CHR 0xF0, CHR 0x9F, CHR 0x94, CHR 0x90] @ '' Authentication'')"
    unfolding f by (simp add: create_auth_folder_def reader_defs)
  have r: "request_login_user \<in> set (folder_requests (folders ?c ! 0))"
    unfolding f by (simp add: create_auth_folder_def folder_requests_def reader_defs)
  have s: "?script \<in> set (post_response_scripts request_login_user)"
    by (simp add: post_response_scripts_def request_login_user_def script_login_user_def
        reader_defs)
  have 3: "\<exists>r \<in> set (folder_requests (folders ?c ! 0)).
        \<exists>script \<in> set (post_response_scripts r).
          \<exists>stmt \<in> set script. sets_collection_variable ''auth_token'' stmt"
  proof (rule bexI [where x = request_login_user])
    show "\<exists>script \<in> set (post_response_scripts request_login_user).
          \<exists>stmt \<in> set script. sets_collection_variable ''auth_token'' stmt"
    proof (rule bexI [OF _ s])
      show "\<exists>stmt \<in> set ?script. sets_collection_variable ''auth_token'' stmt"
      proof (rule bexI
          [where x = "''    pm.collectionVariables.set('auth_token', response.token);''"])
        show "sets_collection_variable ''auth_token''
            ''    pm.collectionVariables.set('auth_token', response.token);''"
          by (rule login_sets_auth_token)
      qed simp
    qed
  qed (rule r)
  have 4: "list_ex (\<lambda>v. py_str_at v [''key''] = Some ''auth_token'')
         (py_items_at ?c [''variable''])"
    by (simp add: create_postman_collection_def generate_uuid_def reader_defs)
  from 1 2 3 4 show ?thesis by (intro conjI)
qed

section \<open>The descriptors, field by field\<close>

lemma json_dumps_dict_nonempty: "json_dumps (PyDict kvs) ind \<noteq> []"
  by (simp add: json_dumps_def)

lemma example_bodies_nonempty:
  "json_dumps example_body_register_user ind \<noteq> []"
  "json_dumps example_body_login_user ind \<noteq> []"
  "json_dumps example_body_create_component ind \<noteq> []"
  "json_dumps example_body_create_component_donation_order ind \<noteq> []"
  "json_dumps example_body_create_premium_upgrade_order ind \<noteq> []"
  unfolding example_body_register_user_def example_body_login_user_def
    example_body_create_component_def example_body_create_component_donation_order_def
    example_body_create_premium_upgrade_order_def
  by (rule json_dumps_dict_nonempty)+

text \<open>Method, auth override, headers, body, body mode and body text of the sixteen
  descriptors, in the order of the folders.\<close>

lemma request_table:
  "map (\<lambda>r. (req_method r, req_auth r, headers r, req_body r, body_mode r, body_raw r))
     (all_requests (fst (create_postman_collection w))) =
     [(Some ''POST'', None,
       [(Some ''Content-Type'', Some ''application/json'')],
       Some (PyDict [(''mode'', PyStr ''raw''),
                      (''raw'', PyStr (json_dumps example_body_register_user (Some 2)))]),
       Some ''raw'', Some (json_dumps example_body_register_user (Some 2))),
      (Some ''POST'', None,
       [(Some ''Content-Type'', Some ''application/json'')],
       Some (PyDict [(''mode'', PyStr ''raw''),
                      (''raw'', PyStr (json_dumps example_body_login_user (Some 2)))]),
       Some ''raw'', Some (json_dumps example_body_login_user (Some 2))),
      (Some ''GET'', None,
       [],
       None,
       None, None),
      (Some ''GET'', None,
       [],
       None,
       None, None),
      (Some ''GET'', None,
       [],
       None,
       None, None),
      (Some ''POST'', Some (PyDict [(''type'', PyStr ''noauth'')]),
       [(Some ''Content-Type'', Some ''application/json''),
        (Some ''token'', Some ''{{auth_token}}'')],
       Some (PyDict [(''mode'', PyStr ''raw''),
                      (''raw'', PyStr (json_dumps example_body_create_component (Some 2)))]),
       Some ''raw'', Some (json_dumps example_body_create_component (Some 2))),
      (Some ''GET'', Some (PyDict [(''type'', PyStr ''noauth'')]),
       [(Some ''token'', Some ''{{auth_token}}'')],
       None,
       None, None),
      (Some ''GET'', Some (PyDict [(''type'', PyStr ''noauth'')]),
       [(Some ''token'', Some ''{{auth_token}}'')],
       None,
       None, None),
      (Some ''GET'', None,
       [],
       None,
       None, None),
      (Some ''POST'', Some (PyDict [(''type'', PyStr ''noauth'')]),
       [(Some ''Content-Type'', Some ''application/json''),
        (Some ''token'', Some ''{{auth_token}}'')],
       Some (PyDict [(''mode'', PyStr ''raw''),
                      (''raw'', PyStr (json_dumps example_body_create_component_donation_order (Some 2)))]),
       Some ''raw'', Some (json_dumps example_body_create_component_donation_order (Some 2))),
      (Some ''POST'', Some (PyDict [(''type'', PyStr ''noauth'')]),
       [(Some ''Content-Type'', Some ''application/json''),
        (Some ''token'', Some ''{{auth_token}}'')],
       Some (PyDict [(''mode'', PyStr ''raw''),
                      (''raw'', PyStr (json_dumps example_body_create_premium_upgrade_order (Some 2)))]),
       Some ''raw'', Some (json_dumps example_body_create_premium_upgrade_order (Some 2))),
      (Some ''GET'', None,
       [],
       None,
       None, None),
      (Some ''GET'', None,
       [],
       None,
       None, None),
      (Some ''GET'', None,
       [],
       None,
       None, None),
      (Some ''GET'', None,
       [],
       None,
       None, None),
      (Some ''GET'', None,
       [],
       None,
       None, None)]"
  unfolding collection_requests
  by (simp add: request_defs reader_defs)

section \<open>Bodies and auth\<close>

text \<open>
  C7. A descriptor that needs no body (every \<^verbatim>\<open>GET\<close>; the \<^verbatim>\<open>POST\<close>s are the ones with an
  example payload) has no \<^verbatim>\<open>body\<close> field at all, and a \<^verbatim>\<open>body\<close> field is never an empty
  object, an empty string or \<^verbatim>\<open>None\<close>: where it is present, its text is not empty. A
  descriptor that needs no auth of its own (it sends no \<^verbatim>\<open>token\<close> header) has no \<^verbatim>\<open>auth\<close>
  field, so the collection's auth applies to it, and an \<^verbatim>\<open>auth\<close> field is never empty.
\<close>

theorem body_and_auth_absent_unless_needed:
  "\<forall>r \<in> set (all_requests (fst (create_postman_collection w))).
     (req_method r = Some ''GET'' \<or> req_method r = Some ''POST'')
     \<and> (req_body r = None) = (req_method r = Some ''GET'')
     \<and> req_body r \<noteq> Some (PyDict []) \<and> req_body r \<noteq> Some (PyStr '''')
     \<and> req_body r \<noteq> Some PyNone
     \<and> (req_body r = None) = (body_raw r = None) \<and> body_raw r \<noteq> Some ''''
     \<and> (req_auth r = None) = (\<not> list_ex (\<lambda>k. k = Some ''token'') (header_keys r))
     \<and> req_auth r \<noteq> Some (PyDict []) \<and> req_auth r \<noteq> Some PyNone"
proof -
  have "list_all
     (\<lambda>(m, a, h, b, bm, br).
       (m = Some ''GET'' \<or> m = Some ''POST'')
       \<and> (b = None) = (m = Some ''GET'')
       \<and> b \<noteq> Some (PyDict []) \<and> b \<noteq> Some (PyStr '''') \<and> b \<noteq> Some PyNone
       \<and> (b = None) = (br = None) \<and> br \<noteq> Some ''''
       \<and> (a = None) = (\<not> list_ex (\<lambda>k. k = Some ''token'') (map fst h))
       \<and> a \<noteq> Some (PyDict []) \<and> a \<noteq> Some PyNone)
     (map (\<lambda>r. (req_method r, req_auth r, headers r, req_body r, body_mode r, body_raw r))
       (all_requests (fst (create_postman_collection w))))"
    unfolding request_table by (simp add: example_bodies_nonempty)
  then show ?thesis
    by (simp only: list_all_iff set_map ball_simps case_prod_conv header_keys_def)
qed

text \<open>The health check: a \<^verbatim>\<open>GET\<close> with no header.\<close>

theorem body_and_auth_absent_unless_needed_witness:
  "req_method request_health_check = Some ''GET'' \<and> req_body request_health_check = None
   \<and> req_auth request_health_check = None"
proof -
  have a: "request_health_check \<in> set (all_requests (fst (create_postman_collection quiet_world)))"
    by (simp add: collection_requests)
  have m: "req_method request_health_check = Some ''GET''"
    by (simp add: request_health_check_def reader_defs)
  have h: "\<not> list_ex (\<lambda>k. k = Some ''token'') (header_keys request_health_check)"
    by (simp add: request_health_check_def reader_defs)
  from body_and_auth_absent_unless_needed [of quiet_world, rule_format, OF a] m h
  show ?thesis by (simp only: simp_thms)
qed

text \<open>
  C10. Every descriptor that has an \<^verbatim>\<open>auth\<close> field of its own has it as
  \<^verbatim>\<open>{"type": "noauth"}\<close> and carries the header \<^verbatim>\<open>token: {{auth_token}}\<close>; a descriptor
  without the field has no header whose key is \<^verbatim>\<open>token\<close>.
\<close>

theorem auth_override_is_noauth_with_token_header:
  "\<forall>r \<in> set (all_requests (fst (create_postman_collection w))).
     (req_auth r \<noteq> None \<longrightarrow>
        req_auth r = Some (PyDict [(''type'', PyStr ''noauth'')])
        \<and> has_header r ''token'' ''{{auth_token}}'')
     \<and> (req_auth r = None \<longrightarrow> \<not> list_ex (\<lambda>k. k = Some ''token'') (header_keys r))"
proof -
  have "list_all
     (\<lambda>(m, a, h, b, bm, br).
       (a \<noteq> None \<longrightarrow>
          a = Some (PyDict [(''type'', PyStr ''noauth'')])
          \<and> list_ex (\<lambda>x. x = (Some ''token'', Some ''{{auth_token}}'')) h)
       \<and> (a = None \<longrightarrow> \<not> list_ex (\<lambda>k. k = Some ''token'') (map fst h)))
     (map (\<lambda>r. (req_method r, req_auth r, headers r, req_body r, body_mode r, body_raw r))
       (all_requests (fst (create_postman_collection w))))"
    unfolding request_table by simp
  then show ?thesis
    by (simp only: list_all_iff set_map ball_simps case_prod_conv header_keys_def has_header_def)
qed

text \<open>One descriptor with the override and one without.\<close>

theorem auth_override_is_noauth_with_token_header_witness:
  "req_auth request_get_specific_component = Some (PyDict [(''type'', PyStr ''noauth'')])
   \<and> has_header request_get_specific_component ''token'' ''{{auth_token}}''
   \<and> req_auth request_get_pricing_info = None
   \<and> \<not> list_ex (\<lambda>k. k = Some ''token'') (header_keys request_get_pricing_info)"
proof -
  have a: "request_get_specific_component
          \<in> set (all_requests (fst (create_postman_collection quiet_world)))"
    and b: "request_get_pricing_info
          \<in> set (all_requests (fst (create_postman_collection quiet_world)))"
    by (simp_all add: collection_requests)
  have c: "req_auth request_get_specific_component \<noteq> None"
    by (simp add: request_get_specific_component_def reader_defs)
  have d: "req_auth request_get_pricing_info = None"
    by (simp add: request_get_pricing_info_def reader_defs)
  from auth_override_is_noauth_with_token_header [of quiet_world, rule_format, OF a] c
  have 1: "req_auth request_get_specific_component = Some (PyDict [(''type'', PyStr ''noauth'')])
        \<and> has_header request_get_specific_component ''token'' ''{{auth_token}}''"
    by (simp only: simp_thms)
  from auth_override_is_noauth_with_token_header [of quiet_world, rule_format, OF b] d
  have 2: "\<not> list_ex (\<lambda>k. k = Some ''token'') (header_keys request_get_pricing_info)"
    by (simp only: simp_thms)
  from 1 2 d show ?thesis by (simp only: simp_thms)
qed

section \<open>The example payloads\<close>

text \<open>Each example payload, written by \<^verbatim>\<open>json.dumps\<close> as the source does and read by
  \<^verbatim>\<open>json.loads\<close>, is the payload again.\<close>

lemma register_user_round_trip:
  "json_loads (json_dumps example_body_register_user (Some 2))
     = Some example_body_register_user"
  by code_simp

lemma login_user_round_trip:
  "json_loads (json_dumps example_body_login_user (Some 2)) = Some example_body_login_user"
  by code_simp

lemma create_component_round_trip:
  "json_loads (json_dumps example_body_create_component (Some 2))
     = Some example_body_create_component"
  by code_simp

lemma donation_order_round_trip:
  "json_loads (json_dumps example_body_create_component_donation_order (Some 2))
     = Some example_body_create_component_donation_order"
  by code_simp

lemma premium_upgrade_round_trip:
  "json_loads (json_dumps example_body_create_premium_upgrade_order (Some 2))
     = Some example_body_create_premium_upgrade_order"
  by code_simp

lemma donation_order_text:
  "json_dumps example_body_create_component_donation_order (Some 2) =
     ''{\<newline>  \"amount\": 25.5,\<newline>  \"componentId\": \"custom-button-1\",\<newline>''
     @ ''  \"isPremiumUpgrade\": false\<newline>}''"
  by code_simp

text \<open>
  C6. The Payments folder, which is one of the collection's folders, holds a descriptor
  named Create Component Donation Order whose body is made from the object
  \<^verbatim>\<open>{"amount": 25.50, "componentId": "custom-button-1", "isPremiumUpgrade": false}\<close>. The
  text in that descriptor's \<^verbatim>\<open>raw\<close> field is the one shown, and parsing it as JSON gives
  that object back. It is the only descriptor of that name in the collection.
\<close>

theorem donation_order_body_round_trip:
  "create_payments_folder \<in> set (folders (fst (create_postman_collection w)))
   \<and> (\<exists>r \<in> set (folder_requests create_payments_folder).
        request_name r = Some ''Create Component Donation Order''
        \<and> body_raw r =
            Some (''{\<newline>  \"amount\": 25.5,\<newline>  \"componentId\": \"custom-button-1\",\<newline>''
                  @ ''  \"isPremiumUpgrade\": false\<newline>}'')
        \<and> Option.bind (body_raw r) json_loads =
            Some (PyDict
                   [(''amount'', PyFloat 255 (-1)),
                    (''componentId'', PyStr ''custom-button-1''),
                    (''isPremiumUpgrade'', PyBool False)]))
   \<and> filter (\<lambda>r. request_name r = Some ''Create Component Donation Order'')
        (all_requests (fst (create_postman_collection w)))
      = [folder_requests create_payments_folder ! 1]"
proof -
  let ?r = request_create_component_donation_order
  have folder: "create_payments_folder \<in> set (folders (fst (create_postman_collection w)))"
    by (simp add: collection_folders)
  have items: "folder_requests create_payments_folder =
      [request_get_pricing_info, request_create_component_donation_order,
       request_create_premium_upgrade_order, request_capture_order_webhook,
       request_cancel_order_webhook]"
    by (simp add: create_payments_folder_def folder_requests_def py_items_at_def)
  have member: "?r \<in> set (folder_requests create_payments_folder)"
    unfolding items by simp
  have name: "request_name ?r = Some ''Create Component Donation Order''"
    by (simp add: request_create_component_donation_order_def reader_defs)
  have raw: "body_raw ?r =
      Some (json_dumps example_body_create_component_donation_order (Some 2))"
    by (simp add: request_create_component_donation_order_def reader_defs)
  have obj: "example_body_create_component_donation_order =
      PyDict
        [(''amount'', PyFloat 255 (-1)),
         (''componentId'', PyStr ''custom-button-1''),
         (''isPremiumUpgrade'', PyBool False)]"
    by (simp add: example_body_create_component_donation_order_def)
  have 1: "body_raw ?r =
     Some (''{\<newline>  \"amount\": 25.5,\<newline>  \"componentId\": \"custom-button-1\",\<newline>''
           @ ''  \"isPremiumUpgrade\": false\<newline>}'')"
    unfolding raw by (simp only: donation_order_text)
  have 2: "Option.bind (body_raw ?r) json_loads =
     Some (PyDict
            [(''amount'', PyFloat 255 (-1)),
             (''componentId'', PyStr ''custom-button-1''),
             (''isPremiumUpgrade'', PyBool False)])"
    unfolding raw using donation_order_round_trip by (simp only: bind.simps obj)
  have emitted: "\<exists>r \<in> set (folder_requests create_payments_folder).
        request_name r = Some ''Create Component Donation Order''
        \<and> body_raw r =
            Some (''{\<newline>  \"amount\": 25.5,\<newline>  \"componentId\": \"custom-button-1\",\<newline>''
                  @ ''  \"isPremiumUpgrade\": false\<newline>}'')
        \<and> Option.bind (body_raw r) json_loads =
            Some (PyDict
                   [(''amount'', PyFloat 255 (-1)),
                    (''componentId'', PyStr ''custom-button-1''),
                    (''isPremiumUpgrade'', PyBool False)])"
    using member name 1 2 by (intro bexI [where x = ?r] conjI)
  have only: "filter (\<lambda>r. request_name r = Some ''Create Component Donation Order'')
        (all_requests (fst (create_postman_collection w)))
      = [folder_requests create_payments_folder ! 1]"
    unfolding collection_requests items by (simp add: request_name_each)
  from folder emitted only show ?thesis by (intro conjI)
qed

text \<open>
  C9. Every descriptor that has a \<^verbatim>\<open>body\<close> has it in mode \<^verbatim>\<open>raw\<close>, with a text that
  parses as JSON, and carries the header \<^verbatim>\<open>Content-Type: application/json\<close>.
\<close>

theorem body_is_raw_json_with_content_type:
  "\<forall>r \<in> set (all_requests (fst (create_postman_collection w))).
     req_body r \<noteq> None \<longrightarrow>
       body_mode r = Some ''raw''
       \<and> Option.bind (body_raw r) json_loads \<noteq> None
       \<and> has_header r ''Content-Type'' ''application/json''"
proof -
  have "list_all
     (\<lambda>(m, a, h, b, bm, br).
       b \<noteq> None \<longrightarrow>
         bm = Some ''raw''
         \<and> Option.bind br json_loads \<noteq> None
         \<and> list_ex (\<lambda>x. x = (Some ''Content-Type'', Some ''application/json'')) h)
     (map (\<lambda>r. (req_method r, req_auth r, headers r, req_body r, body_mode r, body_raw r))
       (all_requests (fst (create_postman_collection w))))"
    unfolding request_table
    by (simp add: register_user_round_trip login_user_round_trip create_component_round_trip
        donation_order_round_trip premium_upgrade_round_trip)
  then show ?thesis
    by (simp only: list_all_iff set_map ball_simps case_prod_conv has_header_def)
qed

text \<open>The registration request.\<close>

theorem body_is_raw_json_with_content_type_witness:
  "body_mode request_register_user = Some ''raw''
   \<and> Option.bind (body_raw request_register_user) json_loads \<noteq> None
   \<and> has_header request_register_user ''Content-Type'' ''application/json''"
proof -
  have a: "request_register_user \<in> set (all_requests (fst (create_postman_collection quiet_world)))"
    by (simp add: collection_requests)
  have b: "req_body request_register_user \<noteq> None"
    by (simp add: request_register_user_def reader_defs)
  from body_is_raw_json_with_content_type [of quiet_world, rule_format, OF a b]
  show ?thesis .
qed

section \<open>Failed writes\<close>

text \<open>On a standard output that takes every line, the closing \<^verbatim>\<open>print\<close> statements add
  their lines and return.\<close>

lemma print_all_accepted:
  "(\<forall>n line. stdout_fault w n line = None) \<Longrightarrow>
     print_all ls w = (Inr (), w\<lparr>stdout := stdout w @ ls\<rparr>)"
  by (induction ls arbitrary: w) (simp_all add: py_print_def)

text \<open>When the banner cannot be printed, \<^verbatim>\<open>main\<close> is left before anything is built or
  written.\<close>

lemma banner_print_fails:
  "stdout_fault w (length (stdout w)) banner = Some e \<Longrightarrow> main w = (Inl e, w)"
  by (simp add: main_def py_print_def)

lemma banner_print_fails_run:
  assumes "stdout_fault w (length (stdout w)) banner = Some e"
  shows "fst (run_script w) \<noteq> 0" and "snd (run_script w) = w"
  using banner_print_fails [OF assms] by (simp_all add: run_script_def)

text \<open>What \<^verbatim>\<open>main\<close> has in hand when it starts writing: the two documents, built from the
  identifiers the run draws, and a world that differs from the first one by the banner
  and the three identifiers used up.\<close>

lemma main_builds:
  fixes w :: world
  defines "w1 \<equiv> w\<lparr>stdout := stdout w @ [banner]\<rparr>"
  shows "create_postman_collection w1 =
           (fst (create_postman_collection w),
            w\<lparr>uuid_drawn := Suc (uuid_drawn w), stdout := stdout w @ [banner]\<rparr>)"
    and "create_test_environments (snd (create_postman_collection w1)) =
           (fst (create_test_environments (snd (create_postman_collection w))),
            w\<lparr>uuid_drawn := Suc (Suc (Suc (uuid_drawn w))), stdout := stdout w @ [banner]\<rparr>)"
  by (simp_all add: w1_def create_postman_collection_def
      create_test_environments_def generate_uuid_def case_prod_beta Let_def)

lemma environment_items:
  "\<exists>d p. dict_items (fst (create_test_environments w)) = [(''development'', d), (''production'', p)]"
  by (simp add: create_test_environments_def generate_uuid_def)

lemma sample_timestamp: "strftime sample_clock = ''20240309_140507''"
  by (simp add: strftime_def sample_clock_def zero_pad_def str_nat.simps digit_char_def)

lemma artifact_texts_four: "\<exists>a b c d. artifact_texts w = [a, b, c, d]"
  using environment_items [of "snd (create_postman_collection w)"]
  by (auto simp add: artifact_texts_def case_prod_beta)

text \<open>When the banner is printed and the collection file cannot be opened, \<^verbatim>\<open>main\<close> is
  left at its first write.\<close>

lemma collection_open_fails:
  assumes "stdout_fault w (length (stdout w)) banner = None"
    and "fs_fault w (collection_filename (strftime (clock w))) = Some OpenFails"
  shows "main w =
    (Inl (OSError (Some (collection_filename (strftime (clock w))))),
     w\<lparr>uuid_drawn := Suc (Suc (Suc (uuid_drawn w))), stdout := stdout w @ [banner]\<rparr>)"
  using assms main_builds [of w]
  by (simp add: main_def write_file_def case_prod_beta Let_def py_print_def)

text \<open>
  C8, as stated, fails. In the world where the collection file cannot be opened and every
  other file could be written, the run ends with status 1 and leaves no file at all: the
  writes of the environments and of the instructions, queued behind the failed one, are
  not made. The program prints the banner and nothing else.
\<close>

theorem failed_write_aborts_queued_writes:
  "strftime (clock readonly_world) = ''20240309_140507''
   \<and> fs_fault readonly_world (env_filename ''development'' ''20240309_140507'') = None
   \<and> fs_fault readonly_world (env_filename ''production'' ''20240309_140507'') = None
   \<and> fs_fault readonly_world (readme_filename ''20240309_140507'') = None
   \<and> fst (run_script readonly_world) = 1
   \<and> files (snd (run_script readonly_world)) = Map.empty
   \<and> stdout (snd (run_script readonly_world)) = [banner]"
proof -
  have ts: "strftime (clock readonly_world) = ''20240309_140507''"
    by (simp add: readonly_world_def quiet_world_def sample_timestamp)
  have out: "stdout_fault readonly_world (length (stdout readonly_world)) banner = None"
    by (simp add: readonly_world_def quiet_world_def)
  have "fs_fault readonly_world (collection_filename (strftime (clock readonly_world)))
          = Some OpenFails"
    unfolding ts by (simp add: readonly_world_def quiet_world_def collection_filename_def)
  from collection_open_fails [OF out this]
  have run: "run_script readonly_world =
      (1, readonly_world\<lparr>uuid_drawn := Suc (Suc (Suc (uuid_drawn readonly_world))),
                          stdout := stdout readonly_world @ [banner]\<rparr>)"
    by (simp add: run_script_def readonly_world_def quiet_world_def)
  show ?thesis
    unfolding run
    by (simp add: sample_timestamp readonly_world_def quiet_world_def env_filename_def
        readme_filename_def)
qed

text \<open>
  C8, as the program runs. \<^verbatim>\<open>main\<close> prints its banner and then writes the collection, the
  development environment, the production environment and the instructions, in this
  order. Take a run whose banner is printed. If the first \<open>i\<close> writes succeed and the next
  one fails, the \<^verbatim>\<open>OSError\<close> leaves \<^verbatim>\<open>main\<close> uncaught and the exit status is not zero; the
  exception names the file when \<^verbatim>\<open>open\<close> failed and names none when a write failed. The
  \<open>i\<close> files written before hold their full text, the failed one is as it was (\<^verbatim>\<open>open\<close>
  failed) or holds a prefix of its text (a write failed), the files queued after it are
  as they were before the run, and the program prints nothing after its banner. On
  success, that is when all four writes succeed (\<open>i = 4\<close>) and the standard output takes
  every line, the four files hold their texts, the report is printed and the exit status
  is 0 (120 instead when the standard output cannot be flushed at exit).
\<close>

theorem first_failed_write_ends_the_run:
  fixes w :: world and i :: nat and f :: fault
  defines "ts \<equiv> strftime (clock w)"
  defines "paths \<equiv> artifact_paths ts"
  defines "w' \<equiv> snd (run_script w)"
  assumes "stdout_fault w (length (stdout w)) banner = None"
    and "i \<le> 4"
    and "list_all (\<lambda>p. fs_fault w p = None) (take i paths)"
    and "i < 4 \<Longrightarrow> fs_fault w (paths ! i) = Some f"
    and "i = 4 \<Longrightarrow> \<forall>n line. stdout_fault w n line = None"
  shows
    "(if i < 4 then fst (run_script w) \<noteq> 0
      else fst (run_script w) = (if flush_fails w then 120 else 0))
     \<and> fst (main w) =
         (if i < 4
          then Inl (OSError (case f of OpenFails \<Rightarrow> Some (paths ! i) | WriteFails n \<Rightarrow> None))
          else Inr ())
     \<and> map (files w') (take i paths) = map Some (take i (artifact_texts w))
     \<and> map (files w') (drop (Suc i) paths) = map (files w) (drop (Suc i) paths)
     \<and> (i < 4 \<longrightarrow>
          files w' (paths ! i) =
            (case f of
               OpenFails \<Rightarrow> files w (paths ! i)
             | WriteFails n \<Rightarrow> Some (take n (artifact_texts w ! i))))
     \<and> stdout w' = stdout w @ banner # (if i < 4 then [] else success_report ts)"
proof -
  define c where "c = fst (create_postman_collection w)"
  define e where "e = fst (create_test_environments (snd (create_postman_collection w)))"
  obtain d p where env: "dict_items e = [(''development'', d), (''production'', p)]"
    unfolding e_def using environment_items by blast
  have builds:
    "create_postman_collection (w\<lparr>stdout := stdout w @ [banner]\<rparr>) =
       (c, w\<lparr>uuid_drawn := Suc (uuid_drawn w), stdout := stdout w @ [banner]\<rparr>)"
    "create_test_environments
       (w\<lparr>uuid_drawn := Suc (uuid_drawn w), stdout := stdout w @ [banner]\<rparr>) =
       (e, w\<lparr>uuid_drawn := Suc (Suc (Suc (uuid_drawn w))), stdout := stdout w @ [banner]\<rparr>)"
    using main_builds [of w] by (simp_all add: c_def e_def)
  have texts: "artifact_texts w =
      [json_dump_text c (Some 2), json_dump_text d (Some 2), json_dump_text p (Some 2),
       generate_readme]"
    using env by (simp add: artifact_texts_def c_def e_def case_prod_beta)
  note defs = ts_def paths_def w'_def run_script_def main_def py_print_def builds env texts
    write_file_def artifact_paths_def collection_filename_def env_filename_def
    readme_filename_def Let_def
  from assms(5) consider "i = 0" | "i = 1" | "i = 2" | "i = 3" | "i = 4"
    by linarith
  then show ?thesis
  proof cases
    case 1
    with assms(4,6,7) show ?thesis
      by (cases f) (simp_all add: defs)
  next
    case 2
    with assms(4,6,7) show ?thesis
      by (cases f) (simp_all add: defs)
  next
    case 3
    with assms(4,6,7) show ?thesis
      by (cases f) (simp_all add: defs)
  next
    case 4
    with assms(4,6,7) show ?thesis
      by (cases f) (simp_all add: defs)
  next
    case 5
    with assms(8) have ok: "\<forall>n line. stdout_fault w n line = None"
      by simp
    from 5 assms(4,6) ok show ?thesis
      by (simp add: defs print_all_accepted)
  qed
qed

text \<open>The run on the full disk: the collection is written, the development environment
  is cut after 64 characters, and the production environment and the instructions are
  never written.\<close>

theorem first_failed_write_ends_the_run_witness:
  "fst (run_script full_disk_world) \<noteq> 0
   \<and> fst (main full_disk_world) = Inl (OSError None)
   \<and> files (snd (run_script full_disk_world))
        ''component-store-api_20240309_140507.postman_collection.json''
      = Some (artifact_texts full_disk_world ! 0)
   \<and> files (snd (run_script full_disk_world))
        ''component-store-development_20240309_140507.postman_environment.json''
      = Some (take 64 (artifact_texts full_disk_world ! 1))
   \<and> files (snd (run_script full_disk_world))
        ''component-store-production_20240309_140507.postman_environment.json''
      = None
   \<and> files (snd (run_script full_disk_world)) ''POSTMAN_README_20240309_140507.md'' = None
   \<and> stdout (snd (run_script full_disk_world)) = [banner]"
proof -
  have ts: "strftime (clock full_disk_world) = ''20240309_140507''"
    by (simp add: full_disk_world_def quiet_world_def sample_timestamp)
  have paths: "artifact_paths ''20240309_140507'' =
      [''component-store-api_20240309_140507.postman_collection.json'',
       ''component-store-development_20240309_140507.postman_environment.json'',
       ''component-store-production_20240309_140507.postman_environment.json'',
       ''POSTMAN_README_20240309_140507.md'']"
    by (simp add: artifact_paths_def collection_filename_def env_filename_def
        readme_filename_def)
  obtain a b c d where texts: "artifact_texts full_disk_world = [a, b, c, d]"
    using artifact_texts_four by blast
  have 0: "stdout_fault full_disk_world (length (stdout full_disk_world)) banner = None"
    by (simp add: full_disk_world_def quiet_world_def)
  have 1: "(1::nat) \<le> 4"
    by simp
  have 2: "list_all (\<lambda>p. fs_fault full_disk_world p = None)
             (take 1 (artifact_paths (strftime (clock full_disk_world))))"
    unfolding ts paths by (simp add: full_disk_world_def quiet_world_def)
  have 3: "fs_fault full_disk_world (artifact_paths (strftime (clock full_disk_world)) ! 1)
             = Some (WriteFails 64)"
    unfolding ts paths by (simp add: full_disk_world_def quiet_world_def)
  have 4: "(1::nat) = 4 \<Longrightarrow> \<forall>n line. stdout_fault full_disk_world n line = None"
    by simp
  have old: "files full_disk_world = Map.empty" "stdout full_disk_world = []"
    by (simp_all add: full_disk_world_def quiet_world_def)
  from first_failed_write_ends_the_run [OF 0 1 2 3 4]
  show ?thesis
    unfolding ts paths texts by (simp add: old)
qed

end
